theory Spec2Isabelle
  imports Complex_Main "HOL-Library.AList" "HOL-Library.Multiset"
begin

section \<open>Common data\<close>

text \<open>
  Exceptions of the checks are values: every \<^verbatim>\<open>raise\<close> of the source is an
  \<open>Inl\<close> branch of the model. The Deepchecks error classes carry their message.
\<close>

datatype error =
    DeepchecksValueError string
  | DeepchecksNotSupportedError string
  | DeepchecksProcessError string
  | DatasetValidationError string
  | NotImplementedError string
  | TypeError
  | ValueError
  | KeyError
  | OverflowError

text \<open>
  Values held by the property buffers: what an extractor yields is numeric (a class id, a
  count, an area); what \<^verbatim>\<open>label_id_to_name\<close> yields is a class name.
  Python's unbounded integers are \<open>int\<close>; floating point is not modelled.
\<close>

datatype scalar = Num int | Name string

text \<open>A buffer value that is still a numeric id, not a class name.\<close>

fun is_class_id :: "scalar \<Rightarrow> bool" where
  "is_class_id (Num i) = True"
| "is_class_id (Name s) = False"

text \<open>
  A property method returns one entry per sample; an entry is a single value or a
  sequence of values (one per detected object).
\<close>

datatype sample_value = Single scalar | Many "scalar list"

datatype output_type = continuous | discrete | class_id

record 'p property =
  name :: string
  prop_method :: "'p \<Rightarrow> sample_value list"
  output_type :: output_type

datatype DatasetKind = TRAIN | TEST | OtherKind

datatype TaskType = CLASSIFICATION | OBJECT_DETECTION | OtherTask

record 'p Batch =
  predictions :: 'p

record VisionData =
  task_type :: TaskType
  label_id_to_name :: "scalar \<Rightarrow> scalar"

record Context =
  train :: VisionData
  test :: VisionData

text \<open>
  \<^verbatim>\<open>defaultdict(list)\<close>: a map from names to lists in which reading a missing key
  yields (and stores) the empty list.
\<close>

type_synonym buffers = "string \<rightharpoonup> scalar list"

definition dd_get :: "buffers \<Rightarrow> string \<Rightarrow> scalar list" where
  "dd_get m k = (case m k of None \<Rightarrow> [] | Some xs \<Rightarrow> xs)"

definition truthy :: "int option \<Rightarrow> bool" where
  "truthy v = (case v of None \<Rightarrow> False | Some n \<Rightarrow> n \<noteq> 0)"

definition py_or :: "int option \<Rightarrow> int option \<Rightarrow> int option" where
  "py_or a b = (if truthy a then a else b)"

section \<open>TrainTestPredictionDrift\<close>

record 'p TrainTestPredictionDrift =
  user_prediction_properties :: "'p property list option"
  max_num_categories_for_drift :: "int option"
  max_num_categories_for_display :: "int option"
  show_categories_by :: string
  priv_prediction_properties :: "'p property list option"
  priv_train_prediction_properties :: "buffers option"
  priv_test_prediction_properties :: "buffers option"

datatype warning = DeprecationWarning

text \<open>
  \<^verbatim>\<open>__init__\<close>. \<^verbatim>\<open>validate_properties\<close> is a collaborator that raises on a
  malformed property list; it is the parameter \<open>validate_properties\<close>, returning the
  error it raises, if any. The result carries the warnings emitted.
\<close>

definition TrainTestPredictionDrift_init ::
  "('p property list \<Rightarrow> error option) \<Rightarrow> 'p property list option \<Rightarrow> int option \<Rightarrow> int option
    \<Rightarrow> string \<Rightarrow> int option \<Rightarrow> error + ('p TrainTestPredictionDrift \<times> warning list)" where
  "TrainTestPredictionDrift_init validate_properties prediction_props for_drift for_display
      show_by max_num_categories =
    (case (case prediction_props of None \<Rightarrow> None | Some ps \<Rightarrow> validate_properties ps) of
      Some e \<Rightarrow> Inl e
    | None \<Rightarrow>
        (let (warnings, for_drift', for_display') =
               (if max_num_categories \<noteq> None
                then ([DeprecationWarning],
                      py_or for_drift max_num_categories,
                      py_or for_display max_num_categories)
                else ([], for_drift, for_display))
         in Inr (\<lparr> user_prediction_properties = prediction_props,
                    max_num_categories_for_drift = for_drift',
                    max_num_categories_for_display = for_display',
                    show_categories_by = show_by,
                    priv_prediction_properties = None,
                    priv_train_prediction_properties = None,
                    priv_test_prediction_properties = None \<rparr>,
                  warnings)))"

text \<open>
  Modelled from the spec: \<^verbatim>\<open>properties_flatten\<close> of
  \<^verbatim>\<open>deepchecks.vision.utils.label_prediction_properties\<close>, which the sources do
  not include. All values across all samples of the batch are concatenated into one
  sequence, losing the per-sample grouping.
\<close>

fun flatten_sample :: "sample_value \<Rightarrow> scalar list" where
  "flatten_sample (Single v) = [v]"
| "flatten_sample (Many vs) = vs"

definition properties_flatten :: "sample_value list \<Rightarrow> scalar list" where
  "properties_flatten in_list = concat (map flatten_sample in_list)"

text \<open>
  \<^verbatim>\<open>initialize_run\<close>. The two default property lists are constants of a module
  outside the sources and are parameters here.
\<close>

definition initialize_run ::
  "'p property list \<Rightarrow> 'p property list \<Rightarrow> 'p TrainTestPredictionDrift \<Rightarrow> Context
    \<Rightarrow> error + 'p TrainTestPredictionDrift" where
  "initialize_run default_classification default_object_detection self context =
    (let task = task_type (train context) in
     case (case user_prediction_properties self of
             Some ps \<Rightarrow> Inr ps
           | None \<Rightarrow>
               if task = CLASSIFICATION then Inr default_classification
               else if task = OBJECT_DETECTION then Inr default_object_detection
               else Inl (NotImplementedError
                 ''Check must receive either prediction_properties or run on Classification or Object Detection class'')) of
       Inl e \<Rightarrow> Inl e
     | Inr ps \<Rightarrow>
         Inr (self\<lparr> priv_prediction_properties := Some ps,
                    priv_train_prediction_properties := Some Map.empty,
                    priv_test_prediction_properties := Some Map.empty \<rparr>))"

text \<open>
  The body of the loop of \<^verbatim>\<open>update\<close>:
  \<^verbatim>\<open>properties[p['name']] += properties_flatten(p['method'](batch.predictions))\<close>.
\<close>

definition append_property :: "'p Batch \<Rightarrow> buffers \<Rightarrow> 'p property \<Rightarrow> buffers" where
  "append_property batch properties p =
     properties(name p \<mapsto>
       dd_get properties (name p) @ properties_flatten (prop_method p (predictions batch)))"

text \<open>
  \<^verbatim>\<open>update\<close>. Before \<^verbatim>\<open>initialize_run\<close> the three private fields are None and
  iterating or indexing them raises TypeError.
\<close>

definition update ::
  "'p TrainTestPredictionDrift \<Rightarrow> Context \<Rightarrow> 'p Batch \<Rightarrow> DatasetKind
    \<Rightarrow> error + 'p TrainTestPredictionDrift" where
  "update self context batch dataset_kind =
    (if dataset_kind = OtherKind
     then Inl (DeepchecksNotSupportedError ''Unsupported dataset kind'')
     else
       (case priv_prediction_properties self of
          None \<Rightarrow> Inl TypeError
        | Some ps \<Rightarrow>
           (case (if dataset_kind = TRAIN then priv_train_prediction_properties self
                  else priv_test_prediction_properties self) of
              None \<Rightarrow> if ps = [] then Inr self else Inl TypeError
            | Some properties \<Rightarrow>
               (let properties' = foldl (append_property batch) properties ps
                in Inr (if dataset_kind = TRAIN
                        then self\<lparr> priv_train_prediction_properties := Some properties' \<rparr>
                        else self\<lparr> priv_test_prediction_properties := Some properties' \<rparr>)))))"

text \<open>
  The batches of a run arrive one at a time, each tagged with its dataset kind; the
  first \<^verbatim>\<open>update\<close> that raises ends the run.
\<close>

fun update_all ::
  "'p TrainTestPredictionDrift \<Rightarrow> Context \<Rightarrow> (DatasetKind \<times> 'p Batch) list
    \<Rightarrow> error + 'p TrainTestPredictionDrift" where
  "update_all self context [] = Inr self"
| "update_all self context ((dataset_kind, batch) # rest) =
    (case update self context batch dataset_kind of
       Inl e \<Rightarrow> Inl e
     | Inr self' \<Rightarrow> update_all self' context rest)"

text \<open>
  What the claims compare the buffers with: the batches of one kind, in arrival order,
  and the flattened values that the properties declared under a name extract from a batch
  (in declaration order).
\<close>

definition batches_of :: "DatasetKind \<Rightarrow> (DatasetKind \<times> 'p Batch) list \<Rightarrow> 'p Batch list" where
  "batches_of k calls = map snd (filter (\<lambda>c. fst c = k) calls)"

definition extracted :: "'p property list \<Rightarrow> string \<Rightarrow> 'p Batch \<Rightarrow> scalar list" where
  "extracted ps n batch =
     concat (map (\<lambda>p. properties_flatten (prop_method p (predictions batch)))
                 (filter (\<lambda>p. name p = n) ps))"

subsection \<open>compute\<close>

text \<open>
  Modelled from the spec: \<^verbatim>\<open>get_column_type\<close> of
  \<^verbatim>\<open>deepchecks.vision.utils.label_prediction_properties\<close>, which the sources do
  not include. Class-id and discrete properties are categorical, continuous ones
  numerical.
\<close>

datatype column_type = numerical | categorical

datatype drift_method = PSI | EarthMoversDistance

fun get_column_type :: "output_type \<Rightarrow> column_type" where
  "get_column_type continuous = numerical"
| "get_column_type discrete = categorical"
| "get_column_type class_id = categorical"

text \<open>
  \<^verbatim>\<open>calc_drift_and_plot\<close> is outside the sources: \<^verbatim>\<open>compute\<close> takes it as a
  parameter, called with the train column, the test column, the value name, the column
  type and the three configuration fields; it returns the score, the method and the
  display, or raises.
\<close>

type_synonym ('s, 'd) calc_drift =
  "scalar list \<Rightarrow> scalar list \<Rightarrow> string \<Rightarrow> column_type \<Rightarrow> int option \<Rightarrow> int option \<Rightarrow> string
    \<Rightarrow> error + ('s \<times> drift_method \<times> 'd)"

text \<open>
  Python's \<^verbatim>\<open>sorted(xs, key=key, reverse=True)\<close>: the list is reversed, sorted stably
  in ascending order of the key, and reversed again.
\<close>

definition py_sorted_reverse :: "('a \<Rightarrow> 'k::linorder) \<Rightarrow> 'a list \<Rightarrow> 'a list" where
  "py_sorted_reverse key xs = rev (sort_key key (rev xs))"

datatype 'd display_item = Headnote "string list" | Artifact 'd

record ('s, 'd) CheckResult =
  cr_value :: "(string \<times> 's \<times> drift_method) list"
  cr_display :: "'d display_item list"
  cr_header :: string

text \<open>The state of the loop of \<^verbatim>\<open>compute\<close>: the two buffers and the two ordered dicts.\<close>

record ('s, 'd) compute_acc =
  acc_train :: buffers
  acc_test :: buffers
  values_dict :: "(string \<times> 's \<times> drift_method) list"
  displays_dict :: "(string \<times> 'd) list"

text \<open>
  One pass of the loop. A \<^verbatim>\<open>class_id\<close> property first has both of its buffers
  rewritten through \<^verbatim>\<open>label_id_to_name\<close>; reading a buffer stores the key
  (\<^verbatim>\<open>defaultdict\<close>). The rewritten buffers stay in place when the scorer raises.
\<close>

definition translate_buffer :: "output_type \<Rightarrow> (scalar \<Rightarrow> scalar) \<Rightarrow> buffers \<Rightarrow> string \<Rightarrow> buffers" where
  "translate_buffer ot lookup properties nm =
     properties(nm \<mapsto> (if ot = class_id then map lookup (dd_get properties nm)
                          else dd_get properties nm))"

definition compute_step ::
  "('s, 'd) calc_drift \<Rightarrow> 'p TrainTestPredictionDrift \<Rightarrow> Context \<Rightarrow> ('s, 'd) compute_acc
    \<Rightarrow> 'p property \<Rightarrow> ('s, 'd) compute_acc \<times> error option" where
  "compute_step calc_drift_and_plot self context acc p =
    (let nm = name p;
         ot = output_type p;
         tr = translate_buffer ot (label_id_to_name (train context)) (acc_train acc) nm;
         te = translate_buffer ot (label_id_to_name (test context)) (acc_test acc) nm;
         acc' = acc\<lparr> acc_train := tr, acc_test := te \<rparr>
     in case calc_drift_and_plot (dd_get tr nm) (dd_get te nm) nm (get_column_type ot)
               (max_num_categories_for_drift self) (max_num_categories_for_display self)
               (show_categories_by self) of
          Inl e \<Rightarrow> (acc', Some e)
        | Inr (v, m, display) \<Rightarrow>
            (acc'\<lparr> values_dict := AList.update nm (v, m) (values_dict acc'),
                   displays_dict := AList.update nm display (displays_dict acc') \<rparr>, None))"

fun compute_loop ::
  "('s, 'd) calc_drift \<Rightarrow> 'p TrainTestPredictionDrift \<Rightarrow> Context \<Rightarrow> ('s, 'd) compute_acc
    \<Rightarrow> 'p property list \<Rightarrow> ('s, 'd) compute_acc \<times> error option" where
  "compute_loop calc self context acc [] = (acc, None)"
| "compute_loop calc self context acc (p # ps) =
    (case compute_step calc self context acc p of
       (acc', Some e) \<Rightarrow> (acc', Some e)
     | (acc', None) \<Rightarrow> compute_loop calc self context acc' ps)"

definition drift_score :: "(string \<times> 's \<times> drift_method) list \<Rightarrow> string \<Rightarrow> 's" where
  "drift_score vd col = fst (the (map_of vd col))"

definition columns_order :: "(string \<times> ('s::linorder) \<times> drift_method) list \<Rightarrow> string list \<Rightarrow> string list" where
  "columns_order vd prediction_properties_names =
     py_sorted_reverse (drift_score vd) prediction_properties_names"

text \<open>
  \<^verbatim>\<open>compute\<close> returns the check as the run leaves it, and the result or the exception.
  With a buffer still None (no \<^verbatim>\<open>initialize_run\<close>) the first access raises TypeError;
  the train buffer is accessed first.
\<close>

definition compute ::
  "('s::linorder, 'd) calc_drift \<Rightarrow> 'p TrainTestPredictionDrift \<Rightarrow> Context
    \<Rightarrow> 'p TrainTestPredictionDrift \<times> (error + ('s, 'd) CheckResult)" where
  "compute calc self context =
    (case priv_prediction_properties self of
       None \<Rightarrow> (self, Inl TypeError)
     | Some ps \<Rightarrow>
        (let prediction_properties_names = map name ps in
         case (priv_train_prediction_properties self, priv_test_prediction_properties self) of
           (Some tb, Some teb) \<Rightarrow>
             (case compute_loop calc self context
                     \<lparr> acc_train = tb, acc_test = teb, values_dict = [], displays_dict = [] \<rparr> ps of
                (acc, Some e) \<Rightarrow>
                  (self\<lparr> priv_train_prediction_properties := Some (acc_train acc),
                         priv_test_prediction_properties := Some (acc_test acc) \<rparr>, Inl e)
              | (acc, None) \<Rightarrow>
                  (self\<lparr> priv_train_prediction_properties := Some (acc_train acc),
                         priv_test_prediction_properties := Some (acc_test acc) \<rparr>,
                   Inr \<lparr> cr_value = values_dict acc,
                         cr_display = Headnote prediction_properties_names #
                           map (\<lambda>col. Artifact (the (map_of (displays_dict acc) col)))
                               (columns_order (values_dict acc) prediction_properties_names),
                         cr_header = ''Train Test Prediction Drift'' \<rparr>))
         | (Some tb, None) \<Rightarrow>
             (case ps of
                [] \<Rightarrow> (self, Inr \<lparr> cr_value = [], cr_display = [Headnote []],
                                   cr_header = ''Train Test Prediction Drift'' \<rparr>)
              | p # _ \<Rightarrow>
                  (self\<lparr> priv_train_prediction_properties :=
                           Some (translate_buffer (output_type p) (label_id_to_name (train context))
                                   tb (name p)) \<rparr>, Inl TypeError))
         | (None, _) \<Rightarrow>
             (case ps of
                [] \<Rightarrow> (self, Inr \<lparr> cr_value = [], cr_display = [Headnote []],
                                   cr_header = ''Train Test Prediction Drift'' \<rparr>)
              | p # _ \<Rightarrow> (self, Inl TypeError))))"

text \<open>
  Modelled from the spec: \<^verbatim>\<open>calc_drift_and_plot\<close> of
  \<^verbatim>\<open>deepchecks.utils.distribution.drift\<close>, which the sources do not include. The
  scorer is selected by the column type: PSI for a categorical column, Earth Mover's
  Distance for a numerical one. The two distances and the chart are parameters; a
  distance may fail.
\<close>

definition calc_drift_and_plot ::
  "(scalar list \<Rightarrow> scalar list \<Rightarrow> int option \<Rightarrow> error + 's)
    \<Rightarrow> (scalar list \<Rightarrow> scalar list \<Rightarrow> error + 's)
    \<Rightarrow> (scalar list \<Rightarrow> scalar list \<Rightarrow> string \<Rightarrow> column_type \<Rightarrow> int option \<Rightarrow> string \<Rightarrow> 'd)
    \<Rightarrow> ('s, 'd) calc_drift" where
  "calc_drift_and_plot psi earth_movers_distance plot train_column test_column value_name
      column_type max_for_drift max_for_display show_by =
    (case column_type of
       numerical \<Rightarrow>
         (case earth_movers_distance train_column test_column of
            Inl e \<Rightarrow> Inl e
          | Inr score \<Rightarrow>
              Inr (score, EarthMoversDistance,
                   plot train_column test_column value_name column_type max_for_display show_by))
     | categorical \<Rightarrow>
         (case psi train_column test_column max_for_drift of
            Inl e \<Rightarrow> Inl e
          | Inr score \<Rightarrow>
              Inr (score, PSI,
                   plot train_column test_column value_name column_type max_for_display show_by)))"

text \<open>
  How many declared \<^verbatim>\<open>class_id\<close> properties carry a name: the number of times the
  loop of \<^verbatim>\<open>compute\<close> rewrites the buffers of that name.
\<close>

definition class_id_passes :: "'p property list \<Rightarrow> string \<Rightarrow> nat" where
  "class_id_passes ps n = length (filter (\<lambda>p. name p = n \<and> output_type p = class_id) ps)"

text \<open>
  The spec's rule for the method of a property: class-id and discrete properties are
  scored by PSI, continuous ones by Earth Mover's Distance.
\<close>

fun method_for :: "output_type \<Rightarrow> drift_method" where
  "method_for continuous = EarthMoversDistance"
| "method_for discrete = PSI"
| "method_for class_id = PSI"

definition declared_methods :: "'p property list \<Rightarrow> (string \<times> drift_method) list" where
  "declared_methods ps =
     foldl (\<lambda>al p. AList.update (name p) (method_for (output_type p)) al) [] ps"

definition recorded_methods :: "(string \<times> 's \<times> drift_method) list \<Rightarrow> (string \<times> drift_method) list" where
  "recorded_methods vd = map (\<lambda>(n, v, m). (n, m)) vd"

section \<open>SegmentPerformance\<close>

text \<open>
  A feature is a column label (\<^verbatim>\<open>Hashable\<close>): an integer or a string. In a boolean
  position the integer 0 and the empty string are false.
\<close>

datatype feature = FInt int | FStr string

fun feature_truthy :: "feature \<Rightarrow> bool" where
  "feature_truthy (FInt i) = (i \<noteq> 0)"
| "feature_truthy (FStr s) = (s \<noteq> [])"

text \<open>The argument \<^verbatim>\<open>max_segments\<close>: an \<^verbatim>\<open>int\<close>, or a value of another type.\<close>

datatype segments_arg = IntArg int | NotAnInt

record 'sc SegmentPerformance =
  feature_1 :: "feature option"
  feature_2 :: "feature option"
  max_segments :: int
  user_scorer :: "(string \<times> 'sc) list option"

text \<open>
  \<^verbatim>\<open>__init__\<close>. The two messages are the source's, without their inner double quotes.
\<close>

definition SegmentPerformance_init ::
  "feature option \<Rightarrow> feature option \<Rightarrow> (string \<times> 'sc) option \<Rightarrow> segments_arg
    \<Rightarrow> error + 'sc SegmentPerformance" where
  "SegmentPerformance_init f1 f2 alternative_scorer segments =
    (if (case f1 of None \<Rightarrow> False | Some f \<Rightarrow> feature_truthy f \<and> f1 = f2)
     then Inl (DeepchecksValueError ''feature_1 must be different than feature_2'')
     else
       (case segments of
          NotAnInt \<Rightarrow> Inl (DeepchecksValueError ''num_segments must be positive integer'')
        | IntArg n \<Rightarrow>
            if n < 0
            then Inl (DeepchecksValueError ''num_segments must be positive integer'')
            else Inr \<lparr> feature_1 = f1, feature_2 = f2, max_segments = n,
                       user_scorer = (case alternative_scorer of
                                        None \<Rightarrow> None
                                      | Some named \<Rightarrow> Some [named]) \<rparr>))"

text \<open>
  The collaborators of \<^verbatim>\<open>run_logic\<close>: a dataset with its feature names and rows, a
  partition filter, and the context with the model, the feature importance (if any)
  and the scorer it hands out. \<^verbatim>\<open>partition_column\<close> is outside the sources and is a
  parameter; so is \<^verbatim>\<open>assert_features\<close>, given by the error it raises, if any.
\<close>

record 'row Dataset =
  features :: "feature list"
  data :: "'row list"
  assert_features :: "error option"

record 'row ColumnFilter =
  filter_rows :: "'row list \<Rightarrow> 'row list"
  label :: string

record ('row, 'model, 'sc, 'score) TabularContext =
  tc_train :: "'row Dataset"
  tc_test :: "'row Dataset"
  tc_model :: 'model
  tc_features_importance :: "(feature \<times> int) list option"
  tc_get_single_scorer :: "(string \<times> 'sc) list option \<Rightarrow> 'model \<Rightarrow> 'row Dataset \<Rightarrow> 'score"

record 'score SegmentValue =
  scores :: "'score option list list"
  counts :: "nat list list"
  value_feature_1 :: "feature option"
  value_feature_2 :: "feature option"

text \<open>
  \<^verbatim>\<open>self.feature_1, self.feature_2, *_ = xs\<close>: at least two elements, or ValueError.
\<close>

fun unpack_two :: "'a list \<Rightarrow> error + ('a \<times> 'a)" where
  "unpack_two (x # y # _) = Inr (x, y)"
| "unpack_two _ = Inl ValueError"

text \<open>
  The keys of the feature importance after \<^verbatim>\<open>sort_values(ascending=False)\<close>. The order
  pandas gives to equal importances is not specified; here they keep their order.
\<close>

definition importance_keys :: "(feature \<times> int) list \<Rightarrow> feature list" where
  "importance_keys fi = map fst (py_sorted_reverse snd fi)"

text \<open>
  Lines 87 to 95 of \<^verbatim>\<open>run_logic\<close>: the features to segment by. The check is returned as
  the assignments leave it.
\<close>

definition select_features ::
  "'sc SegmentPerformance \<Rightarrow> feature list \<Rightarrow> (feature \<times> int) list option
    \<Rightarrow> 'sc SegmentPerformance \<times> (error + feature \<times> feature)" where
  "select_features self fs features_importance =
    (case (feature_1 self, feature_2 self) of
       (None, None) \<Rightarrow>
         (case unpack_two (case features_importance of
                             None \<Rightarrow> fs
                           | Some fi \<Rightarrow> importance_keys fi) of
            Inl e \<Rightarrow> (self, Inl e)
          | Inr (a, b) \<Rightarrow> (self\<lparr> feature_1 := Some a, feature_2 := Some b \<rparr>, Inr (a, b)))
     | (Some a, Some b) \<Rightarrow> (self, Inr (a, b))
     | _ \<Rightarrow>
         (self, Inl (DeepchecksValueError
                       ''Must define both feature_1 and feature_2 or none of them'')))"

text \<open>
  The matrices of scores and counts: a cell with no rows has no score (NaN in the source,
  replaced by None at the end).
\<close>

definition segment_scores ::
  "('model \<Rightarrow> 'row Dataset \<Rightarrow> 'score) \<Rightarrow> 'model \<Rightarrow> 'row Dataset
    \<Rightarrow> 'row ColumnFilter list \<Rightarrow> 'row ColumnFilter list \<Rightarrow> 'score option list list" where
  "segment_scores scorer model dataset filters_1 filters_2 =
     map (\<lambda>f1. map (\<lambda>f2.
            (let rows = filter_rows f2 (filter_rows f1 (data dataset))
             in if rows = [] then None else Some (scorer model (dataset\<lparr> data := rows \<rparr>))))
          filters_2) filters_1"

definition segment_counts ::
  "'row Dataset \<Rightarrow> 'row ColumnFilter list \<Rightarrow> 'row ColumnFilter list \<Rightarrow> nat list list" where
  "segment_counts dataset filters_1 filters_2 =
     map (\<lambda>f1. map (\<lambda>f2. length (filter_rows f2 (filter_rows f1 (data dataset)))) filters_2)
         filters_1"

text \<open>
  \<^verbatim>\<open>run_logic\<close>: the check after the run and the value of the result, or the
  exception. The figure built from the value is rendering and is left out.
\<close>

definition run_logic ::
  "('row Dataset \<Rightarrow> feature \<Rightarrow> int \<Rightarrow> error + 'row ColumnFilter list)
    \<Rightarrow> 'sc SegmentPerformance \<Rightarrow> ('row, 'model, 'sc, 'score) TabularContext \<Rightarrow> string
    \<Rightarrow> 'sc SegmentPerformance \<times> (error + 'score SegmentValue)" where
  "run_logic partition_column self ctx dataset_type =
    (let dataset = (if dataset_type = ''train'' then tc_train ctx else tc_test ctx);
         model = tc_model ctx;
         scorer = tc_get_single_scorer ctx (user_scorer self)
     in case assert_features dataset of
          Some e \<Rightarrow> (self, Inl e)
        | None \<Rightarrow>
           if length (features dataset) < 2
           then (self, Inl (DatasetValidationError ''Dataset must have at least 2 features''))
           else
             (case select_features self (features dataset) (tc_features_importance ctx) of
                (self', Inl e) \<Rightarrow> (self', Inl e)
              | (self', Inr (f1, f2)) \<Rightarrow>
                 (case partition_column dataset f1 (max_segments self') of
                    Inl e \<Rightarrow> (self', Inl e)
                  | Inr filters_1 \<Rightarrow>
                     (case partition_column dataset f2 (max_segments self') of
                        Inl e \<Rightarrow> (self', Inl e)
                      | Inr filters_2 \<Rightarrow>
                          (self', Inr \<lparr> scores = segment_scores scorer model dataset
                                                   filters_1 filters_2,
                                       counts = segment_counts dataset filters_1 filters_2,
                                       value_feature_1 = feature_1 self',
                                       value_feature_2 = feature_2 self' \<rparr>)))))"

section \<open>ModelErrorAnalysis\<close>

text \<open>
  The property buffers of the check are dicts from a property name to the values
  collected for it, in insertion order; they become the columns of a data frame. A
  missing value (NaN) is None.
\<close>

type_synonym 'v frame = "(string \<times> 'v option list) list"

record ('v, 'sc, 'ip) ModelErrorAnalysis =
  random_state :: int
  min_error_model_score :: real
  min_segment_size :: real
  max_properties_to_show :: int
  min_property_contribution :: real
  n_display_samples :: int
  image_properties :: 'ip
  priv_train_properties :: "'v frame option"
  priv_test_properties :: "'v frame option"
  priv_train_scores :: "'sc list option"
  priv_test_scores :: "'sc list option"

text \<open>
  \<^verbatim>\<open>initialize_run\<close>: \<^verbatim>\<open>context.assert_task_type\<close> is given by the error it raises,
  if any; then the four buffers are created anew.
\<close>

definition mea_initialize_run ::
  "('v, 'sc, 'ip) ModelErrorAnalysis \<Rightarrow> error option \<Rightarrow> error + ('v, 'sc, 'ip) ModelErrorAnalysis" where
  "mea_initialize_run self assert_task_type =
    (case assert_task_type of
       Some e \<Rightarrow> Inl e
     | None \<Rightarrow> Inr (self\<lparr> priv_train_properties := Some [],
                            priv_test_properties := Some [],
                            priv_train_scores := Some [],
                            priv_test_scores := Some [] \<rparr>))"

text \<open>
  The pandas operations of \<^verbatim>\<open>compute\<close>. \<^verbatim>\<open>pd.DataFrame\<close> of a dict of lists raises
  ValueError unless all lists have one length, and of None is the empty frame;
  \<^verbatim>\<open>dropna(axis=1, how='all')\<close> drops the columns with no value at all; selecting
  columns by name raises KeyError for a name the frame does not have.
\<close>

definition pd_DataFrame :: "'v frame option \<Rightarrow> error + 'v frame" where
  "pd_DataFrame d =
    (case d of
       None \<Rightarrow> Inr []
     | Some [] \<Rightarrow> Inr []
     | Some (c # cols) \<Rightarrow>
         if list_all (\<lambda>c'. length (snd c') = length (snd c)) cols
         then Inr (c # cols) else Inl ValueError)"

definition dropna_all_columns :: "'v frame \<Rightarrow> 'v frame" where
  "dropna_all_columns df = filter (\<lambda>c. \<not> list_all (\<lambda>v. v = None) (snd c)) df"

fun select_columns :: "'v frame \<Rightarrow> string list \<Rightarrow> error + 'v frame" where
  "select_columns df [] = Inr []"
| "select_columns df (n # ns) =
    (case map_of df n of
       None \<Rightarrow> Inl KeyError
     | Some col \<Rightarrow>
        (case select_columns df ns of
           Inl e \<Rightarrow> Inl e
         | Inr cols \<Rightarrow> Inr ((n, col) # cols)))"

text \<open>Lines 145 and 146 of \<^verbatim>\<open>compute\<close>: the two property frames.\<close>

definition property_frames ::
  "('v, 'sc, 'ip) ModelErrorAnalysis \<Rightarrow> error + ('v frame \<times> 'v frame)" where
  "property_frames self =
    (case pd_DataFrame (priv_train_properties self) of
       Inl e \<Rightarrow> Inl e
     | Inr df \<Rightarrow>
        (let train_property_df = dropna_all_columns df in
         case pd_DataFrame (priv_test_properties self) of
           Inl e \<Rightarrow> Inl e
         | Inr tdf \<Rightarrow>
            (case select_columns tdf (map fst train_property_df) of
               Inl e \<Rightarrow> Inl e
             | Inr test_property_df \<Rightarrow> Inr (train_property_df, test_property_df))))"

text \<open>
  What \<^verbatim>\<open>compute\<close> hands back to its caller: a result (value and display), or a
  \<^verbatim>\<open>CheckFailure\<close> holding the check and the exception.
\<close>

datatype ('c, 'val, 'd) check_outcome =
    CheckResultOf 'val "'d display_item list option"
  | CheckFailure 'c error

text \<open>
  \<^verbatim>\<open>compute\<close>. \<^verbatim>\<open>model_error_contribution\<close> and
  \<^verbatim>\<open>error_model_display_dataframe\<close> are outside the sources and are parameters that
  return their result or the exception they raise.
\<close>

definition mea_compute ::
  "('v frame \<Rightarrow> 'sc list option \<Rightarrow> 'v frame \<Rightarrow> 'sc list option \<Rightarrow> string list \<Rightarrow> string list
      \<Rightarrow> real \<Rightarrow> int \<Rightarrow> error + ('fi \<times> 'pred))
    \<Rightarrow> ('fi \<Rightarrow> 'pred \<Rightarrow> 'v frame \<Rightarrow> string list \<Rightarrow> int \<Rightarrow> real \<Rightarrow> int \<Rightarrow> real \<Rightarrow> int
      \<Rightarrow> error + ('d list \<times> 'val))
    \<Rightarrow> ('v, 'sc, 'ip) ModelErrorAnalysis
    \<Rightarrow> error + (('v, 'sc, 'ip) ModelErrorAnalysis, 'val, 'd) check_outcome" where
  "mea_compute model_error_contribution error_model_display_dataframe self =
    (case property_frames self of
       Inl e \<Rightarrow> Inl e
     | Inr (train_property_df, test_property_df) \<Rightarrow>
        (case model_error_contribution train_property_df (priv_train_scores self)
                test_property_df (priv_test_scores self) (map fst train_property_df) []
                (min_error_model_score self) (random_state self) of
           Inl (DeepchecksProcessError msg) \<Rightarrow>
             Inr (CheckFailure self (DeepchecksProcessError msg))
         | Inl e \<Rightarrow> Inl e
         | Inr (error_fi, error_model_predicted) \<Rightarrow>
            (case error_model_display_dataframe error_fi error_model_predicted
                    test_property_df [] (max_properties_to_show self)
                    (min_property_contribution self) (n_display_samples self)
                    (min_segment_size self) (random_state self) of
               Inl e \<Rightarrow> Inl e
             | Inr (display, val) \<Rightarrow>
                 Inr (CheckResultOf val
                        (if display \<noteq> [] then Some (Headnote [] # map Artifact display)
                         else None)))))"

section \<open>MixedDataTypes\<close>

text \<open>
  The entries of a column are Python objects: a string, an integer (unbounded), a float,
  or another object. A missing entry (None, NaN) is None; \<^verbatim>\<open>run_logic\<close> drops the
  missing entries before it analyses a column. What \<^verbatim>\<open>float\<close> does with an object
  that is neither a string nor an integer nor a float is the object's own (its
  \<^verbatim>\<open>__float__\<close>, or the lack of one): such an entry carries the outcome of its
  conversion, None when it returns and the exception when it raises (TypeError for a
  complex number, a list, a dict).
\<close>

datatype cell = StrCell string | IntCell int | FloatCell | OtherCell "error option"

definition dropna :: "'a option list \<Rightarrow> 'a list" where
  "dropna xs = concat (map (\<lambda>x. case x of None \<Rightarrow> [] | Some v \<Rightarrow> [v]) xs)"

text \<open>
  Python's \<^verbatim>\<open>float(x)\<close>: None when it returns, the exception when it raises. A string
  is converted when it parses (the parameter \<open>float_parses\<close>) and raises ValueError
  otherwise. An integer is rounded to the nearest double, ties to even, and raises
  OverflowError when the rounded value exceeds the largest double
  \<open>2 ^ 1024 - 2 ^ 971\<close>, that is from \<open>2 ^ 1024 - 2 ^ 970\<close> on in magnitude. A float is
  returned as it is.
\<close>

definition float_overflow :: int where
  "float_overflow = 2 ^ 1024 - 2 ^ 970"

fun py_float :: "(string \<Rightarrow> bool) \<Rightarrow> cell \<Rightarrow> error option" where
  "py_float float_parses (StrCell s) = (if float_parses s then None else Some ValueError)"
| "py_float float_parses (IntCell n) = (if \<bar>n\<bar> < float_overflow then None else Some OverflowError)"
| "py_float float_parses FloatCell = None"
| "py_float float_parses (OtherCell outcome) = outcome"

text \<open>
  \<^verbatim>\<open>is_float\<close>: True when \<^verbatim>\<open>float(x)\<close> returns, False when it raises ValueError;
  any other exception is not caught.
\<close>

definition is_float :: "(string \<Rightarrow> bool) \<Rightarrow> cell \<Rightarrow> error + bool" where
  "is_float float_parses x =
     (case py_float float_parses x of
        None \<Rightarrow> Inr True
      | Some e \<Rightarrow> if e = ValueError then Inr False else Inl e)"

text \<open>\<^verbatim>\<open>column_data.apply(is_float)\<close>: the first exception ends it.\<close>

fun apply_is_float :: "(string \<Rightarrow> bool) \<Rightarrow> cell list \<Rightarrow> error + bool list" where
  "apply_is_float float_parses [] = Inr []"
| "apply_is_float float_parses (x # xs) =
    (case is_float float_parses x of
       Inl e \<Rightarrow> Inl e
     | Inr b \<Rightarrow>
        (case apply_is_float float_parses xs of
           Inl e \<Rightarrow> Inl e
         | Inr bs \<Rightarrow> Inr (b # bs)))"

text \<open>
  \<^verbatim>\<open>_check_mixed_percentage\<close>, on a column without missing entries, where
  \<^verbatim>\<open>count()\<close> is the length. The ratios are exact rationals; floating point is not
  modelled. The result is a dict in insertion order.
\<close>

definition check_mixed_percentage ::
  "(string \<Rightarrow> bool) \<Rightarrow> cell list \<Rightarrow> error + (string \<times> rat) list" where
  "check_mixed_percentage float_parses column_data =
    (let total_rows = length column_data in
     case apply_is_float float_parses column_data of
       Inl e \<Rightarrow> Inl e
     | Inr flags \<Rightarrow>
        (let nums = length (filter (\<lambda>b. b) flags) in
         if nums = total_rows \<or> nums = 0 then Inr []
         else
           (let nums_pct = of_nat nums / of_nat total_rows;
                strs_pct = of_int \<bar>int nums - int total_rows\<bar> / of_nat total_rows
            in Inr [(''strings'', strs_pct), (''numbers'', nums_pct)])))"

text \<open>
  \<^verbatim>\<open>_get_data_mix\<close>. \<^verbatim>\<open>is_string_column\<close> is outside the sources and is a
  parameter.
\<close>

definition get_data_mix ::
  "(cell list \<Rightarrow> bool) \<Rightarrow> (string \<Rightarrow> bool) \<Rightarrow> cell list \<Rightarrow> error + (string \<times> rat) list" where
  "get_data_mix is_string_column float_parses column_data =
    (if is_string_column column_data then check_mixed_percentage float_parses column_data
     else Inr [])"

text \<open>The analysis of one column in \<^verbatim>\<open>run_logic\<close> (lines 78 and 79).\<close>

definition column_mix ::
  "(cell list \<Rightarrow> bool) \<Rightarrow> (string \<Rightarrow> bool) \<Rightarrow> cell option list \<Rightarrow> error + (string \<times> rat) list" where
  "column_mix is_string_column float_parses column =
     get_data_mix is_string_column float_parses (dropna column)"

text \<open>
  The loop of \<^verbatim>\<open>run_logic\<close> over the columns of the selected data frame: the result
  keeps the columns with a non-empty mix.
\<close>

fun mixed_loop ::
  "(cell list \<Rightarrow> bool) \<Rightarrow> (string \<Rightarrow> bool) \<Rightarrow> (string \<times> (string \<times> rat) list) list
    \<Rightarrow> (string \<times> cell option list) list \<Rightarrow> error + (string \<times> (string \<times> rat) list) list" where
  "mixed_loop is_string_column float_parses result_dict [] = Inr result_dict"
| "mixed_loop is_string_column float_parses result_dict ((column_name, column) # rest) =
    (case column_mix is_string_column float_parses column of
       Inl e \<Rightarrow> Inl e
     | Inr mix \<Rightarrow>
         mixed_loop is_string_column float_parses
           (if mix \<noteq> [] then AList.update column_name mix result_dict else result_dict) rest)"

definition mixed_result ::
  "(cell list \<Rightarrow> bool) \<Rightarrow> (string \<Rightarrow> bool) \<Rightarrow> (string \<times> cell option list) list
    \<Rightarrow> error + (string \<times> (string \<times> rat) list) list" where
  "mixed_result is_string_column float_parses df = mixed_loop is_string_column float_parses [] df"

text \<open>The entries that \<^verbatim>\<open>is_float\<close> counts as numbers, and their count.\<close>

definition floatable :: "(string \<Rightarrow> bool) \<Rightarrow> cell \<Rightarrow> bool" where
  "floatable float_parses x = (py_float float_parses x = None)"

definition count_floatable :: "(string \<Rightarrow> bool) \<Rightarrow> cell list \<Rightarrow> nat" where
  "count_floatable float_parses column_data = length (filter (floatable float_parses) column_data)"

text \<open>
  The entries on which \<^verbatim>\<open>float\<close> raises nothing but ValueError: every string, every
  integer below the overflow bound in magnitude, every float, and every other object
  whose conversion returns or raises ValueError.
\<close>

fun analysable :: "cell \<Rightarrow> bool" where
  "analysable (StrCell s) = True"
| "analysable (IntCell n) = (\<bar>n\<bar> < float_overflow)"
| "analysable FloatCell = True"
| "analysable (OtherCell outcome) = (outcome = None \<or> outcome = Some ValueError)"

section \<open>Concrete inputs\<close>

text \<open>
  A run on which the statements below are evaluated: predictions are the predicted class
  ids of the samples of a batch, and the declared property reads them off.
\<close>

definition ex_classes :: "int list property" where
  "ex_classes = \<lparr> name = ''Samples Per Class'',
                   prop_method = map (\<lambda>i. Single (Num i)),
                   output_type = class_id \<rparr>"

definition ex_batch1 :: "int list Batch" where
  "ex_batch1 = \<lparr> predictions = [3, 5] \<rparr>"

definition ex_lookup :: "scalar \<Rightarrow> scalar" where
  "ex_lookup v = (case v of Num i \<Rightarrow> Name (if i = 3 then ''cat'' else ''dog'') | Name s \<Rightarrow> Name s)"

definition ex_context :: Context where
  "ex_context = \<lparr> train = \<lparr> task_type = CLASSIFICATION, label_id_to_name = ex_lookup \<rparr>,
                   test = \<lparr> task_type = CLASSIFICATION, label_id_to_name = ex_lookup \<rparr> \<rparr>"

definition ex_check :: "int list TrainTestPredictionDrift" where
  "ex_check = \<lparr> user_prediction_properties = None,
                 max_num_categories_for_drift = Some 10,
                 max_num_categories_for_display = Some 10,
                 show_categories_by = ''train_largest'',
                 priv_prediction_properties = None,
                 priv_train_prediction_properties = None,
                 priv_test_prediction_properties = None \<rparr>"

definition ex_initialized :: "int list TrainTestPredictionDrift" where
  "ex_initialized = ex_check\<lparr> priv_prediction_properties := Some [ex_classes],
                               priv_train_prediction_properties := Some Map.empty,
                               priv_test_prediction_properties := Some Map.empty \<rparr>"

text \<open>Two declared properties that share one name.\<close>

definition ex_first :: "int list property" where
  "ex_first = \<lparr> name = ''a'', prop_method = (\<lambda>_. [Single (Num 1)]), output_type = discrete \<rparr>"

definition ex_second :: "int list property" where
  "ex_second = \<lparr> name = ''a'', prop_method = (\<lambda>_. [Single (Num 2)]), output_type = discrete \<rparr>"

definition ex_shared_name :: "int list TrainTestPredictionDrift" where
  "ex_shared_name = ex_check\<lparr> user_prediction_properties := Some [ex_first, ex_second] \<rparr>"

text \<open>A scorer for the examples: the score is the number of train values.\<close>

definition ex_calc :: "(nat, string) calc_drift" where
  "ex_calc train_column test_column value_name column_type max_for_drift max_for_display show_by =
     Inr (length train_column, PSI, value_name)"

text \<open>A check about to run \<^verbatim>\<open>compute\<close> on three properties.\<close>

definition ex_three :: "int list property list" where
  "ex_three = [\<lparr> name = ''a'', prop_method = (\<lambda>_. []), output_type = discrete \<rparr>,
               \<lparr> name = ''b'', prop_method = (\<lambda>_. []), output_type = continuous \<rparr>,
               \<lparr> name = ''c'', prop_method = (\<lambda>_. []), output_type = class_id \<rparr>]"

definition ex_ranked :: "int list TrainTestPredictionDrift" where
  "ex_ranked = ex_check\<lparr> priv_prediction_properties := Some ex_three,
       priv_train_prediction_properties :=
         Some [''a'' \<mapsto> [Num 1], ''b'' \<mapsto> [Num 1, Num 2], ''c'' \<mapsto> [Num 3]],
       priv_test_prediction_properties := Some Map.empty \<rparr>"

definition ex_ranked_result :: "(nat, string) CheckResult" where
  "ex_ranked_result =
     \<lparr> cr_value = [(''a'', 1, PSI), (''b'', 2, PSI), (''c'', 1, PSI)],
       cr_display = [Headnote [''a'', ''b'', ''c''], Artifact ''b'', Artifact ''a'', Artifact ''c''],
       cr_header = ''Train Test Prediction Drift'' \<rparr>"

text \<open>Distances and a chart for the examples.\<close>

definition ex_psi :: "scalar list \<Rightarrow> scalar list \<Rightarrow> int option \<Rightarrow> error + nat" where
  "ex_psi train_column test_column max_for_drift = Inr (length train_column)"

definition ex_emd :: "scalar list \<Rightarrow> scalar list \<Rightarrow> error + nat" where
  "ex_emd train_column test_column = Inr (length test_column)"

definition ex_plot ::
  "scalar list \<Rightarrow> scalar list \<Rightarrow> string \<Rightarrow> column_type \<Rightarrow> int option \<Rightarrow> string \<Rightarrow> string" where
  "ex_plot train_column test_column value_name column_type max_for_display show_by = value_name"

definition ex_methods_result :: "(nat, string) CheckResult" where
  "ex_methods_result =
     \<lparr> cr_value = [(''a'', 1, PSI), (''b'', 0, EarthMoversDistance), (''c'', 1, PSI)],
       cr_display = [Headnote [''a'', ''b'', ''c''], Artifact ''a'', Artifact ''c'', Artifact ''b''],
       cr_header = ''Train Test Prediction Drift'' \<rparr>"

text \<open>A run of one TRAIN and one TEST batch, and the check after it.\<close>

definition ex_calls :: "(DatasetKind \<times> int list Batch) list" where
  "ex_calls = [(TRAIN, ex_batch1), (TEST, ex_batch1)]"

definition ex_accumulated :: "int list TrainTestPredictionDrift" where
  "ex_accumulated = ex_check\<lparr> priv_prediction_properties := Some [ex_classes],
       priv_train_prediction_properties := Some [''Samples Per Class'' \<mapsto> [Num 3, Num 5]],
       priv_test_prediction_properties := Some [''Samples Per Class'' \<mapsto> [Num 3, Num 5]] \<rparr>"

text \<open>
  A check declared with two properties that read the predicted classes, one as class
  ids and one as discrete values, and its run of two TRAIN batches.
\<close>

definition ex_values :: "int list property" where
  "ex_values = \<lparr> name = ''Prediction Value'',
                  prop_method = map (\<lambda>i. Single (Num i)),
                  output_type = discrete \<rparr>"

definition ex_declared :: "int list TrainTestPredictionDrift" where
  "ex_declared = ex_check\<lparr> user_prediction_properties := Some [ex_classes, ex_values] \<rparr>"

definition ex_declared_initialized :: "int list TrainTestPredictionDrift" where
  "ex_declared_initialized =
     ex_declared\<lparr> priv_prediction_properties := Some [ex_classes, ex_values],
                   priv_train_prediction_properties := Some Map.empty,
                   priv_test_prediction_properties := Some Map.empty \<rparr>"

definition ex_twice :: "(DatasetKind \<times> int list Batch) list" where
  "ex_twice = [(TRAIN, ex_batch1), (TRAIN, ex_batch1)]"

definition ex_twice_accumulated :: "int list TrainTestPredictionDrift" where
  "ex_twice_accumulated =
     ex_declared\<lparr> priv_prediction_properties := Some [ex_classes, ex_values],
       priv_train_prediction_properties :=
         Some [''Samples Per Class'' \<mapsto> [Num 3, Num 5, Num 3, Num 5],
               ''Prediction Value'' \<mapsto> [Num 3, Num 5, Num 3, Num 5]],
       priv_test_prediction_properties := Some Map.empty \<rparr>"

text \<open>
  Two datasets and a check constructed with both features omitted. The partition of the
  examples keeps all rows in one segment; the score is the number of rows.
\<close>

definition ex_dataset_a :: "nat Dataset" where
  "ex_dataset_a = \<lparr> features = [FStr ''a'', FStr ''b''], data = [1, 2, 3], assert_features = None \<rparr>"

definition ex_dataset_b :: "nat Dataset" where
  "ex_dataset_b = \<lparr> features = [FStr ''c'', FStr ''d'', FStr ''a'', FStr ''b''],
                     data = [4, 5], assert_features = None \<rparr>"

definition ex_tabular :: "nat Dataset \<Rightarrow> (nat, unit, unit, nat) TabularContext" where
  "ex_tabular ds = \<lparr> tc_train = ds, tc_test = ds, tc_model = (),
                     tc_features_importance = None,
                     tc_get_single_scorer = (\<lambda>_ _ d. length (data d)) \<rparr>"

definition ex_partition :: "nat Dataset \<Rightarrow> feature \<Rightarrow> int \<Rightarrow> error + nat ColumnFilter list" where
  "ex_partition ds f n = Inr [\<lparr> filter_rows = (\<lambda>rows. rows), label = ''all'' \<rparr>]"

definition ex_segment_check :: "unit SegmentPerformance" where
  "ex_segment_check = \<lparr> feature_1 = None, feature_2 = None, max_segments = 10, user_scorer = None \<rparr>"

text \<open>
  An initialised check with no property values, and an auxiliary regression step that
  cannot proceed without feature columns.
\<close>

definition ex_error_analysis :: "(int, int, unit) ModelErrorAnalysis" where
  "ex_error_analysis =
     \<lparr> random_state = 42, min_error_model_score = 1/2, min_segment_size = 1/20,
       max_properties_to_show = 20, min_property_contribution = 3/20,
       n_display_samples = 5000, image_properties = (),
       priv_train_properties = Some [], priv_test_properties = Some [],
       priv_train_scores = Some [], priv_test_scores = Some [] \<rparr>"

definition ex_error_contribution ::
  "int frame \<Rightarrow> int list option \<Rightarrow> int frame \<Rightarrow> int list option \<Rightarrow> string list \<Rightarrow> string list
    \<Rightarrow> real \<Rightarrow> int \<Rightarrow> error + (unit \<times> unit)" where
  "ex_error_contribution train_df train_scores test_df test_scores numeric_features cat_features
      min_score seed =
     (if train_df = [] then Inl (DeepchecksProcessError ''no usable feature columns'')
      else Inr ((), ()))"

definition ex_display_dataframe ::
  "unit \<Rightarrow> unit \<Rightarrow> int frame \<Rightarrow> string list \<Rightarrow> int \<Rightarrow> real \<Rightarrow> int \<Rightarrow> real \<Rightarrow> int
    \<Rightarrow> error + (string list \<times> unit)" where
  "ex_display_dataframe fi predicted test_df cat_features n_show min_contribution n_samples
      min_segment seed = Inr ([], ())"

text \<open>
  Strings of digits parse as numbers; a column is a string column when one of its strings
  does not parse.
\<close>

definition ex_float_parses :: "string \<Rightarrow> bool" where
  "ex_float_parses s = (s \<noteq> [] \<and> list_all (\<lambda>c. c \<in> set ''0123456789'') s)"

definition ex_is_string_column :: "cell list \<Rightarrow> bool" where
  "ex_is_string_column column_data =
     list_ex (\<lambda>x. case x of StrCell s \<Rightarrow> \<not> ex_float_parses s | _ \<Rightarrow> False) column_data"

definition ex_column :: "cell option list" where
  "ex_column = [Some (StrCell ''1''), None, Some (StrCell ''a''), Some (StrCell ''7''),
                Some (IntCell 3), Some FloatCell]"

section \<open>Properties of the prediction drift check\<close>

subsection \<open>The accumulator\<close>

definition initialized :: "'p TrainTestPredictionDrift \<Rightarrow> bool" where
  "initialized self =
     (priv_prediction_properties self \<noteq> None \<and>
      priv_train_prediction_properties self \<noteq> None \<and>
      priv_test_prediction_properties self \<noteq> None)"

lemma dd_get_upd: "dd_get (m(k \<mapsto> v)) n = (if n = k then v else dd_get m n)"
  by (simp add: dd_get_def)

lemma dd_get_empty: "dd_get Map.empty n = []"
  by (simp add: dd_get_def)

lemma extracted_Nil: "extracted [] n b = []"
  by (simp add: extracted_def)

lemma extracted_Cons:
  "extracted (p # ps) n b =
     (if name p = n then properties_flatten (prop_method p (predictions b)) else []) @ extracted ps n b"
  by (simp add: extracted_def)

lemma foldl_append_property:
  "dd_get (foldl (append_property b) m ps) n = dd_get m n @ extracted ps n b"
  by (induction ps arbitrary: m)
     (auto simp: extracted_Nil extracted_Cons append_property_def dd_get_upd)

lemma extracted_unique:
  "filter (\<lambda>q. name q = name p) ps = [p] \<Longrightarrow>
     extracted ps (name p) b = properties_flatten (prop_method p (predictions b))"
  by (simp add: extracted_def)

lemma batches_of_Nil: "batches_of k [] = []"
  by (simp add: batches_of_def)

lemma batches_of_Cons:
  "batches_of k ((k', b) # rest) = (if k' = k then b # batches_of k rest else batches_of k rest)"
  by (simp add: batches_of_def)

lemma initialize_run_initialized:
  assumes "initialize_run dc dod self ctx = Inr s0"
  shows "initialized s0 \<and>
         priv_train_prediction_properties s0 = Some Map.empty \<and>
         priv_test_prediction_properties s0 = Some Map.empty"
  using assms
  by (auto simp: initialize_run_def initialized_def Let_def split: option.splits if_splits)

text \<open>One \<^verbatim>\<open>update\<close> appends to the buffers of its own kind only.\<close>

lemma update_initialized:
  assumes "initialized self" and "k \<noteq> OtherKind"
  shows "\<exists>self'. update self ctx b k = Inr self' \<and> initialized self' \<and>
           priv_prediction_properties self' = priv_prediction_properties self \<and>
           (\<forall>n. dd_get (the (priv_train_prediction_properties self')) n =
                 dd_get (the (priv_train_prediction_properties self)) n @
                 (if k = TRAIN then extracted (the (priv_prediction_properties self)) n b else [])) \<and>
           (\<forall>n. dd_get (the (priv_test_prediction_properties self')) n =
                 dd_get (the (priv_test_prediction_properties self)) n @
                 (if k = TEST then extracted (the (priv_prediction_properties self)) n b else []))"
  using assms
  by (cases k) (auto simp: update_def initialized_def foldl_append_property)

lemma update_all_buffers:
  assumes "initialized self" and "list_all (\<lambda>c. fst c \<noteq> OtherKind) calls"
  shows "\<exists>self'. update_all self ctx calls = Inr self' \<and> initialized self' \<and>
           priv_prediction_properties self' = priv_prediction_properties self \<and>
           (\<forall>n. dd_get (the (priv_train_prediction_properties self')) n =
                 dd_get (the (priv_train_prediction_properties self)) n @
                 concat (map (extracted (the (priv_prediction_properties self)) n)
                             (batches_of TRAIN calls))) \<and>
           (\<forall>n. dd_get (the (priv_test_prediction_properties self')) n =
                 dd_get (the (priv_test_prediction_properties self)) n @
                 concat (map (extracted (the (priv_prediction_properties self)) n)
                             (batches_of TEST calls)))"
  using assms
proof (induction calls arbitrary: self)
  case Nil
  then show ?case by (simp add: batches_of_Nil)
next
  case (Cons c calls)
  obtain k b where c: "c = (k, b)" by (cases c)
  from Cons.prems c have k: "k \<noteq> OtherKind" and rest: "list_all (\<lambda>c. fst c \<noteq> OtherKind) calls"
    by simp_all
  from update_initialized[OF Cons.prems(1) k, of ctx b]
  obtain s1 where s1: "update self ctx b k = Inr s1" "initialized s1"
    "priv_prediction_properties s1 = priv_prediction_properties self"
    "\<forall>n. dd_get (the (priv_train_prediction_properties s1)) n =
          dd_get (the (priv_train_prediction_properties self)) n @
          (if k = TRAIN then extracted (the (priv_prediction_properties self)) n b else [])"
    "\<forall>n. dd_get (the (priv_test_prediction_properties s1)) n =
          dd_get (the (priv_test_prediction_properties self)) n @
          (if k = TEST then extracted (the (priv_prediction_properties self)) n b else [])"
    by blast
  from Cons.IH[OF s1(2) rest]
  obtain s2 where s2: "update_all s1 ctx calls = Inr s2" "initialized s2"
    "priv_prediction_properties s2 = priv_prediction_properties s1"
    "\<forall>n. dd_get (the (priv_train_prediction_properties s2)) n =
          dd_get (the (priv_train_prediction_properties s1)) n @
          concat (map (extracted (the (priv_prediction_properties s1)) n) (batches_of TRAIN calls))"
    "\<forall>n. dd_get (the (priv_test_prediction_properties s2)) n =
          dd_get (the (priv_test_prediction_properties s1)) n @
          concat (map (extracted (the (priv_prediction_properties s1)) n) (batches_of TEST calls))"
    by blast
  show ?case
    using s1 s2 k by (cases k) (simp_all add: c batches_of_Cons)
qed

subsection \<open>Descending stable sort\<close>

lemma py_sorted_reverse_descending:
  "sorted_wrt (\<lambda>a b. key a \<ge> key b) (py_sorted_reverse key xs)"
proof -
  have "sorted (map key (sort_key key (rev xs)))" by simp
  then have "sorted_wrt (\<lambda>a b. key a \<le> key b) (sort_key key (rev xs))"
    by (simp add: sorted_map)
  then show ?thesis
    by (simp add: py_sorted_reverse_def sorted_wrt_rev)
qed

lemma py_sorted_reverse_stable:
  "filter (\<lambda>c. key c = k) (py_sorted_reverse key xs) = filter (\<lambda>c. key c = k) xs"
proof -
  have "filter (\<lambda>c. key c = k) (py_sorted_reverse key xs)
        = rev (filter (\<lambda>c. key c = k) (sort_key key (rev xs)))"
    by (simp add: py_sorted_reverse_def rev_filter)
  also have "\<dots> = rev (filter (\<lambda>c. key c = k) (rev xs))"
    by (simp only: sort_key_stable)
  also have "\<dots> = filter (\<lambda>c. key c = k) xs"
    by (simp add: rev_filter)
  finally show ?thesis .
qed

lemma py_sorted_reverse_mset: "mset (py_sorted_reverse key xs) = mset xs"
  by (simp add: py_sorted_reverse_def)

subsection \<open>The loop of compute\<close>

lemma dd_get_translate_buffer:
  "dd_get (translate_buffer ot f m nm) n =
     (if n = nm \<and> ot = class_id then map f (dd_get m n) else dd_get m n)"
  by (simp add: translate_buffer_def dd_get_def)

lemma compute_step_buffers:
  "acc_train (fst (compute_step calc self ctx acc p)) =
     translate_buffer (output_type p) (label_id_to_name (train ctx)) (acc_train acc) (name p) \<and>
   acc_test (fst (compute_step calc self ctx acc p)) =
     translate_buffer (output_type p) (label_id_to_name (test ctx)) (acc_test acc) (name p)"
  by (simp add: compute_step_def Let_def split: sum.splits prod.splits)

lemma compute_step_success:
  assumes "compute_step calc self ctx acc p = (acc', None)"
  shows "\<exists>v m d.
           calc (dd_get (acc_train acc') (name p)) (dd_get (acc_test acc') (name p)) (name p)
                (get_column_type (output_type p)) (max_num_categories_for_drift self)
                (max_num_categories_for_display self) (show_categories_by self) = Inr (v, m, d) \<and>
           values_dict acc' = AList.update (name p) (v, m) (values_dict acc) \<and>
           displays_dict acc' = AList.update (name p) d (displays_dict acc)"
  using assms
  by (auto simp: compute_step_def Let_def split: sum.splits prod.splits)

lemma compute_loop_append:
  "compute_loop calc self ctx acc (ps1 @ ps2) =
     (case compute_loop calc self ctx acc ps1 of
        (a, Some e) \<Rightarrow> (a, Some e)
      | (a, None) \<Rightarrow> compute_loop calc self ctx a ps2)"
  by (induction ps1 arbitrary: acc) (auto split: prod.splits option.splits)

lemma funpow_map_step: "map (f ^^ k) (map f xs) = map (f ^^ Suc k) xs"
  by (simp add: funpow_swap1)

lemma compute_loop_buffers:
  assumes "compute_loop calc self ctx acc ps = (acc', None)"
  shows "dd_get (acc_train acc') n =
           map (label_id_to_name (train ctx) ^^ class_id_passes ps n) (dd_get (acc_train acc) n) \<and>
         dd_get (acc_test acc') n =
           map (label_id_to_name (test ctx) ^^ class_id_passes ps n) (dd_get (acc_test acc) n)"
  using assms
proof (induction ps arbitrary: acc)
  case Nil
  then show ?case by (simp add: class_id_passes_def)
next
  case (Cons p ps)
  obtain acc1 r where step: "compute_step calc self ctx acc p = (acc1, r)"
    by (cases "compute_step calc self ctx acc p")
  with Cons.prems have r: "r = None" and rest: "compute_loop calc self ctx acc1 ps = (acc', None)"
    by (auto split: option.splits)
  from compute_step_buffers[of calc self ctx acc p] step
  have b: "acc_train acc1 = translate_buffer (output_type p) (label_id_to_name (train ctx)) (acc_train acc) (name p)"
          "acc_test acc1 = translate_buffer (output_type p) (label_id_to_name (test ctx)) (acc_test acc) (name p)"
    by simp_all
  show ?case
    using Cons.IH[OF rest] b
    by (simp add: dd_get_translate_buffer class_id_passes_def funpow_swap1)
qed

lemma compute_loop_untouched:
  assumes "compute_loop calc self ctx acc ps = (acc', None)" and "n \<notin> name ` set ps"
  shows "map_of (values_dict acc') n = map_of (values_dict acc) n \<and>
         map_of (displays_dict acc') n = map_of (displays_dict acc) n"
  using assms
proof (induction ps arbitrary: acc)
  case Nil
  then show ?case by simp
next
  case (Cons p ps)
  obtain acc1 r where step: "compute_step calc self ctx acc p = (acc1, r)"
    by (cases "compute_step calc self ctx acc p")
  with Cons.prems have r: "r = None" and rest: "compute_loop calc self ctx acc1 ps = (acc', None)"
    by (auto split: option.splits)
  from compute_step_success[OF step[unfolded r]] Cons.prems(2)
  have "map_of (values_dict acc1) n = map_of (values_dict acc) n \<and>
        map_of (displays_dict acc1) n = map_of (displays_dict acc) n"
    by (auto simp: update_conv')
  with Cons.IH[OF rest] Cons.prems(2) show ?case by simp
qed

lemma passes_append:
  "class_id_passes (ps1 @ ps2) n = class_id_passes ps1 n + class_id_passes ps2 n"
  by (simp add: class_id_passes_def)

lemma passes_absent: "n \<notin> name ` set ps \<Longrightarrow> class_id_passes ps n = 0"
  by (auto simp: class_id_passes_def filter_empty_conv)

lemma compute_loop_entry_of_last:
  assumes loop: "compute_loop calc self ctx acc (ps1 @ p # ps2) = (acc', None)"
      and last: "name p \<notin> name ` set ps2"
  shows "\<exists>v m d.
           calc (map (label_id_to_name (train ctx) ^^ class_id_passes (ps1 @ p # ps2) (name p))
                     (dd_get (acc_train acc) (name p)))
                (map (label_id_to_name (test ctx) ^^ class_id_passes (ps1 @ p # ps2) (name p))
                     (dd_get (acc_test acc) (name p)))
                (name p) (get_column_type (output_type p)) (max_num_categories_for_drift self)
                (max_num_categories_for_display self) (show_categories_by self) = Inr (v, m, d) \<and>
           map_of (values_dict acc') (name p) = Some (v, m) \<and>
           map_of (displays_dict acc') (name p) = Some d"
proof -
  obtain a1 r1 where l1: "compute_loop calc self ctx acc ps1 = (a1, r1)"
    by (cases "compute_loop calc self ctx acc ps1")
  with loop have r1: "r1 = None" and l2: "compute_loop calc self ctx a1 (p # ps2) = (acc', None)"
    by (auto simp: compute_loop_append split: option.splits)
  obtain a2 r2 where st: "compute_step calc self ctx a1 p = (a2, r2)"
    by (cases "compute_step calc self ctx a1 p")
  with l2 have r2: "r2 = None" and l3: "compute_loop calc self ctx a2 ps2 = (acc', None)"
    by (auto split: option.splits)
  have one: "compute_loop calc self ctx a1 [p] = (a2, None)"
    using st r2 by simp
  have upto: "compute_loop calc self ctx acc (ps1 @ [p]) = (a2, None)"
    using l1 r1 one by (simp add: compute_loop_append)
  have k: "class_id_passes (ps1 @ p # ps2) (name p) = class_id_passes (ps1 @ [p]) (name p)"
    using passes_append[of "ps1 @ [p]" ps2 "name p"] passes_absent[OF last]
    by simp
  from compute_step_success[OF st[unfolded r2]]
  obtain v m d where s:
    "calc (dd_get (acc_train a2) (name p)) (dd_get (acc_test a2) (name p)) (name p)
          (get_column_type (output_type p)) (max_num_categories_for_drift self)
          (max_num_categories_for_display self) (show_categories_by self) = Inr (v, m, d)"
    "values_dict a2 = AList.update (name p) (v, m) (values_dict a1)"
    "displays_dict a2 = AList.update (name p) d (displays_dict a1)"
    by blast
  have vd: "map_of (values_dict acc') (name p) = Some (v, m)"
    using compute_loop_untouched[OF l3 last] s(2) by (simp add: update_conv')
  have dd: "map_of (displays_dict acc') (name p) = Some d"
    using compute_loop_untouched[OF l3 last] s(3) by (simp add: update_conv')
  show ?thesis
    using s(1) vd dd compute_loop_buffers[OF upto, of "name p"] k by auto
qed

lemma last_with_name:
  assumes "p \<in> set ps"
  shows "\<exists>ps1 q ps2. ps = ps1 @ q # ps2 \<and> name q = name p \<and> name p \<notin> name ` set ps2"
proof -
  from assms have "\<exists>x\<in>set ps. name x = name p" by blast
  from split_list_last_prop[OF this]
  obtain ys x zs where "ps = ys @ x # zs" "name x = name p" "\<forall>z\<in>set zs. name z \<noteq> name p"
    by blast
  then show ?thesis by (intro exI[of _ ys] exI[of _ x] exI[of _ zs]) auto
qed

lemma compute_loop_keys:
  assumes "compute_loop calc self ctx acc ps = (acc', None)" and "p \<in> set ps"
  shows "map_of (values_dict acc') (name p) \<noteq> None \<and> map_of (displays_dict acc') (name p) \<noteq> None"
proof -
  from last_with_name[OF assms(2)]
  obtain ps1 q ps2 where sp: "ps = ps1 @ q # ps2" "name q = name p" "name p \<notin> name ` set ps2"
    by blast
  from compute_loop_entry_of_last[of calc self ctx acc ps1 q ps2 acc'] assms(1) sp
  show ?thesis by auto
qed

subsection \<open>The order of the display\<close>

lemma compute_success_cases:
  assumes pp: "priv_prediction_properties self = Some ps"
      and run: "compute calc self ctx = (self', Inr res)"
  shows "(ps = [] \<and> cr_value res = [] \<and> cr_display res = [Headnote []]) \<or>
         (\<exists>tb teb acc.
            priv_train_prediction_properties self = Some tb \<and>
            priv_test_prediction_properties self = Some teb \<and>
            compute_loop calc self ctx
              \<lparr> acc_train = tb, acc_test = teb, values_dict = [], displays_dict = [] \<rparr> ps
              = (acc, None) \<and>
            self' = self\<lparr> priv_train_prediction_properties := Some (acc_train acc),
                           priv_test_prediction_properties := Some (acc_test acc) \<rparr> \<and>
            cr_value res = values_dict acc \<and>
            cr_display res = Headnote (map name ps) #
              map (\<lambda>col. Artifact (the (map_of (displays_dict acc) col)))
                  (columns_order (values_dict acc) (map name ps)))"
  using assms
  by (auto simp: compute_def Let_def split: option.splits list.splits prod.splits)

text \<open>
  C5. When \<^verbatim>\<open>compute\<close> returns a result, its display is the headnote followed by one
  artifact per entry of the property-name list, taken in the order \<^verbatim>\<open>columns_order\<close>;
  the artifact shown for a name is the one the scorer returned together with the score
  recorded for that name. That order is descending in the drift score, names of equal
  score keep their declaration order, and it is a rearrangement of the declared names.
\<close>

theorem display_order_descending_stable:
  assumes pp: "priv_prediction_properties self = Some ps"
      and run: "compute calc self ctx = (self', Inr res)"
  shows "\<exists>dd.
           cr_display res = Headnote (map name ps) #
             map (\<lambda>col. Artifact (the (map_of dd col)))
                 (columns_order (cr_value res) (map name ps)) \<and>
           (\<forall>col \<in> set (map name ps).
              \<exists>tr te ct v m d.
                calc tr te col ct (max_num_categories_for_drift self)
                     (max_num_categories_for_display self) (show_categories_by self) = Inr (v, m, d) \<and>
                map_of (cr_value res) col = Some (v, m) \<and> map_of dd col = Some d) \<and>
           sorted_wrt (\<lambda>a b. drift_score (cr_value res) a \<ge> drift_score (cr_value res) b)
                      (columns_order (cr_value res) (map name ps)) \<and>
           (\<forall>k. filter (\<lambda>col. drift_score (cr_value res) col = k)
                        (columns_order (cr_value res) (map name ps)) =
                 filter (\<lambda>col. drift_score (cr_value res) col = k) (map name ps)) \<and>
           mset (columns_order (cr_value res) (map name ps)) = mset (map name ps)"
proof -
  have sorted: "sorted_wrt (\<lambda>a b. drift_score (cr_value res) a \<ge> drift_score (cr_value res) b)
                      (columns_order (cr_value res) (map name ps))"
    unfolding columns_order_def by (rule py_sorted_reverse_descending)
  have stable: "\<forall>k. filter (\<lambda>col. drift_score (cr_value res) col = k)
                        (columns_order (cr_value res) (map name ps)) =
                 filter (\<lambda>col. drift_score (cr_value res) col = k) (map name ps)"
    unfolding columns_order_def by (simp add: py_sorted_reverse_stable)
  have perm: "mset (columns_order (cr_value res) (map name ps)) = mset (map name ps)"
    unfolding columns_order_def by (rule py_sorted_reverse_mset)
  from compute_success_cases[OF pp run]
  consider (empty) "ps = []" "cr_value res = []" "cr_display res = [Headnote []]"
    | (loop) tb teb acc where
        "compute_loop calc self ctx
           \<lparr> acc_train = tb, acc_test = teb, values_dict = [], displays_dict = [] \<rparr> ps = (acc, None)"
        "cr_value res = values_dict acc"
        "cr_display res = Headnote (map name ps) #
              map (\<lambda>col. Artifact (the (map_of (displays_dict acc) col)))
                  (columns_order (values_dict acc) (map name ps))"
    by blast
  then obtain dd where dd:
    "cr_display res = Headnote (map name ps) #
       map (\<lambda>col. Artifact (the (map_of dd col))) (columns_order (cr_value res) (map name ps))"
    "\<forall>col \<in> set (map name ps).
       \<exists>tr te ct v m d.
         calc tr te col ct (max_num_categories_for_drift self)
              (max_num_categories_for_display self) (show_categories_by self) = Inr (v, m, d) \<and>
         map_of (cr_value res) col = Some (v, m) \<and> map_of dd col = Some d"
  proof cases
    case empty
    have "cr_display res = Headnote (map name ps) #
       map (\<lambda>col. Artifact (the (map_of [] col))) (columns_order (cr_value res) (map name ps))"
      using empty by (simp add: columns_order_def py_sorted_reverse_def)
    moreover have "\<forall>col \<in> set (map name ps).
       \<exists>tr te ct v m d.
         calc tr te col ct (max_num_categories_for_drift self)
              (max_num_categories_for_display self) (show_categories_by self) = Inr (v, m, d) \<and>
         map_of (cr_value res) col = Some (v, m) \<and> map_of [] col = Some d"
      using empty by simp
    ultimately show ?thesis using that by blast
  next
    case loop
    have "\<forall>col \<in> set (map name ps).
       \<exists>tr te ct v m d.
         calc tr te col ct (max_num_categories_for_drift self)
              (max_num_categories_for_display self) (show_categories_by self) = Inr (v, m, d) \<and>
         map_of (cr_value res) col = Some (v, m) \<and> map_of (displays_dict acc) col = Some d"
    proof
      fix col assume "col \<in> set (map name ps)"
      then obtain p where p: "p \<in> set ps" "name p = col" by auto
      from last_with_name[OF p(1)]
      obtain ps1 q ps2 where sp: "ps = ps1 @ q # ps2" "name q = name p" "name p \<notin> name ` set ps2"
        by blast
      from compute_loop_entry_of_last[of calc self ctx _ ps1 q ps2 acc] loop(1) sp
      obtain v m d tr te where
        "calc tr te (name q) (get_column_type (output_type q)) (max_num_categories_for_drift self)
              (max_num_categories_for_display self) (show_categories_by self) = Inr (v, m, d)"
        "map_of (values_dict acc) (name q) = Some (v, m)"
        "map_of (displays_dict acc) (name q) = Some d"
        by (metis (no_types, lifting))
      then show "\<exists>tr te ct v m d.
         calc tr te col ct (max_num_categories_for_drift self)
              (max_num_categories_for_display self) (show_categories_by self) = Inr (v, m, d) \<and>
         map_of (cr_value res) col = Some (v, m) \<and> map_of (displays_dict acc) col = Some d"
        using loop(2) sp(2) p(2) by auto
    qed
    then show ?thesis using that[of "displays_dict acc"] loop by simp
  qed
  show ?thesis
    by (rule exI[of _ dd]) (intro conjI dd sorted stable perm)
qed

lemma ex_ranked_compute:
  "snd (compute ex_calc ex_ranked ex_context) = Inr ex_ranked_result"
  by (simp add: compute_def ex_ranked_def ex_check_def ex_three_def ex_context_def
      compute_step_def translate_buffer_def dd_get_def ex_calc_def Let_def
      ex_ranked_result_def columns_order_def py_sorted_reverse_def drift_score_def
      ex_lookup_def)

text \<open>
  Three properties with scores 1, 2 and 1: the display shows the second first, then the
  first and the third in their declaration order.
\<close>

theorem display_order_example:
  "priv_prediction_properties ex_ranked = Some ex_three \<and>
   snd (compute ex_calc ex_ranked ex_context) = Inr ex_ranked_result \<and>
   tl (cr_display ex_ranked_result) = [Artifact ''b'', Artifact ''a'', Artifact ''c''] \<and>
   columns_order (cr_value ex_ranked_result) (map name ex_three) = [''b'', ''a'', ''c''] \<and>
   sorted_wrt (\<lambda>a b. drift_score (cr_value ex_ranked_result) a \<ge> drift_score (cr_value ex_ranked_result) b)
              (columns_order (cr_value ex_ranked_result) (map name ex_three)) \<and>
   filter (\<lambda>col. drift_score (cr_value ex_ranked_result) col = 1)
          (columns_order (cr_value ex_ranked_result) (map name ex_three)) = [''a'', ''c'']"
proof -
  have h1: "priv_prediction_properties ex_ranked = Some ex_three"
    by (simp add: ex_ranked_def)
  have h2: "compute ex_calc ex_ranked ex_context =
              (fst (compute ex_calc ex_ranked ex_context), Inr ex_ranked_result)"
    using ex_ranked_compute by (simp add: prod_eq_iff)
  have order: "columns_order (cr_value ex_ranked_result) (map name ex_three) = [''b'', ''a'', ''c'']"
    by (simp add: columns_order_def py_sorted_reverse_def drift_score_def ex_ranked_result_def
        ex_three_def)
  have ties: "filter (\<lambda>col. drift_score (cr_value ex_ranked_result) col = 1) (map name ex_three)
                = [''a'', ''c'']"
    by (simp add: drift_score_def ex_ranked_result_def ex_three_def)
  from display_order_descending_stable[OF h1 h2]
  have "sorted_wrt (\<lambda>a b. drift_score (cr_value ex_ranked_result) a \<ge> drift_score (cr_value ex_ranked_result) b)
              (columns_order (cr_value ex_ranked_result) (map name ex_three))"
    and "filter (\<lambda>col. drift_score (cr_value ex_ranked_result) col = 1)
          (columns_order (cr_value ex_ranked_result) (map name ex_three)) =
         filter (\<lambda>col. drift_score (cr_value ex_ranked_result) col = 1) (map name ex_three)"
    by blast+
  then show ?thesis
    using h1 ex_ranked_compute order ties by (simp add: ex_ranked_result_def)
qed

subsection \<open>The method recorded for a property\<close>

lemma calc_drift_and_plot_method:
  assumes "calc_drift_and_plot psi emd plot tr te nm (get_column_type ot) d1 d2 sh = Inr (v, m, d)"
  shows "m = method_for ot"
  using assms
  by (cases ot) (auto simp: calc_drift_and_plot_def split: sum.splits)

lemma recorded_methods_update:
  "recorded_methods (AList.update k (v, m) vd) = AList.update k m (recorded_methods vd)"
  by (induction vd) (auto simp: recorded_methods_def)

lemma compute_loop_recorded_methods:
  assumes "compute_loop (calc_drift_and_plot psi emd plot) self ctx acc ps = (acc', None)"
  shows "recorded_methods (values_dict acc') =
           foldl (\<lambda>al p. AList.update (name p) (method_for (output_type p)) al)
                 (recorded_methods (values_dict acc)) ps"
  using assms
proof (induction ps arbitrary: acc)
  case Nil
  then show ?case by simp
next
  case (Cons p ps)
  obtain acc1 r where step: "compute_step (calc_drift_and_plot psi emd plot) self ctx acc p = (acc1, r)"
    by (cases "compute_step (calc_drift_and_plot psi emd plot) self ctx acc p")
  with Cons.prems have r: "r = None"
    and rest: "compute_loop (calc_drift_and_plot psi emd plot) self ctx acc1 ps = (acc', None)"
    by (auto split: option.splits)
  from compute_step_success[OF step[unfolded r]]
  obtain v m d where s:
    "calc_drift_and_plot psi emd plot (dd_get (acc_train acc1) (name p))
       (dd_get (acc_test acc1) (name p)) (name p) (get_column_type (output_type p))
       (max_num_categories_for_drift self) (max_num_categories_for_display self)
       (show_categories_by self) = Inr (v, m, d)"
    "values_dict acc1 = AList.update (name p) (v, m) (values_dict acc)"
    by blast
  from calc_drift_and_plot_method[OF s(1)] have m: "m = method_for (output_type p)" .
  show ?case
    using Cons.IH[OF rest] s(2) m by (simp add: recorded_methods_update)
qed

lemma foldl_update_absent:
  "n \<notin> name ` set ps \<Longrightarrow>
     map_of (foldl (\<lambda>al p. AList.update (name p) (f p) al) al0 ps) n = map_of al0 n"
  by (induction ps arbitrary: al0) (auto simp: update_conv')

lemma declared_methods_unique:
  assumes "filter (\<lambda>q. name q = name p) ps = [p]"
  shows "map_of (declared_methods ps) (name p) = Some (method_for (output_type p))"
proof -
  from assms have "p \<in> set (filter (\<lambda>q. name q = name p) ps)"
    by simp
  then have "p \<in> set ps"
    by simp
  from last_with_name[OF this]
  obtain ps1 q ps2 where sp: "ps = ps1 @ q # ps2" "name q = name p" "name p \<notin> name ` set ps2"
    by blast
  have "q \<in> set (filter (\<lambda>q. name q = name p) ps)"
    using sp by simp
  with assms have q: "q = p" by simp
  have "map_of (declared_methods ps) (name p) =
        map_of (foldl (\<lambda>al p. AList.update (name p) (method_for (output_type p)) al)
                 (AList.update (name p) (method_for (output_type p))
                    (foldl (\<lambda>al p. AList.update (name p) (method_for (output_type p)) al) [] ps1))
                 ps2) (name p)"
    by (simp add: declared_methods_def sp(1) q)
  also have "\<dots> = Some (method_for (output_type p))"
    using foldl_update_absent[OF sp(3), of "\<lambda>p. method_for (output_type p)"]
    by (simp add: update_conv')
  finally show ?thesis .
qed

text \<open>
  C7. With the scorer selected as the spec says, the methods recorded in the result of
  \<^verbatim>\<open>compute\<close>, name by name, are a function of the declared properties alone: the list
  of (name, method) pairs equals \<open>declared_methods\<close> of the property list, whatever the
  buffers and the distances are. For a property with a name of its own the recorded
  method is PSI when its output type is class-id or discrete and Earth Mover's Distance
  when it is continuous.
\<close>

theorem method_determined_by_output_type:
  assumes pp: "priv_prediction_properties self = Some ps"
      and run: "compute (calc_drift_and_plot psi emd plot) self ctx = (self', Inr res)"
  shows "recorded_methods (cr_value res) = declared_methods ps \<and>
         (\<forall>p. filter (\<lambda>q. name q = name p) ps = [p] \<longrightarrow>
              map_of (recorded_methods (cr_value res)) (name p) =
                Some (case output_type p of
                        continuous \<Rightarrow> EarthMoversDistance
                      | discrete \<Rightarrow> PSI
                      | class_id \<Rightarrow> PSI))"
proof -
  from compute_success_cases[OF pp run]
  have all: "recorded_methods (cr_value res) = declared_methods ps"
  proof (elim disjE conjE exE)
    assume "ps = []" "cr_value res = []"
    then show ?thesis by (simp add: recorded_methods_def declared_methods_def)
  next
    fix tb teb acc
    assume loop: "compute_loop (calc_drift_and_plot psi emd plot) self ctx
              \<lparr> acc_train = tb, acc_test = teb, values_dict = [], displays_dict = [] \<rparr> ps
              = (acc, None)"
      and v: "cr_value res = values_dict acc"
    from compute_loop_recorded_methods[OF loop] v
    show ?thesis by (simp add: recorded_methods_def declared_methods_def)
  qed
  have own: "\<forall>p. filter (\<lambda>q. name q = name p) ps = [p] \<longrightarrow>
              map_of (recorded_methods (cr_value res)) (name p) =
                Some (case output_type p of
                        continuous \<Rightarrow> EarthMoversDistance
                      | discrete \<Rightarrow> PSI
                      | class_id \<Rightarrow> PSI)"
  proof (intro allI impI)
    fix p :: "'a property"
    assume u: "filter (\<lambda>q. name q = name p) ps = [p]"
    show "map_of (recorded_methods (cr_value res)) (name p) =
                Some (case output_type p of
                        continuous \<Rightarrow> EarthMoversDistance
                      | discrete \<Rightarrow> PSI
                      | class_id \<Rightarrow> PSI)"
      using declared_methods_unique[OF u] all by (cases "output_type p") simp_all
  qed
  show ?thesis using all own by simp
qed

text \<open>
  A discrete, a continuous and a class-id property: the recorded methods are PSI, Earth
  Mover's Distance and PSI.
\<close>

theorem method_by_output_type_example:
  "priv_prediction_properties ex_ranked = Some ex_three \<and>
   snd (compute (calc_drift_and_plot ex_psi ex_emd ex_plot) ex_ranked ex_context)
     = Inr ex_methods_result \<and>
   recorded_methods (cr_value ex_methods_result) =
     [(''a'', PSI), (''b'', EarthMoversDistance), (''c'', PSI)] \<and>
   declared_methods ex_three = [(''a'', PSI), (''b'', EarthMoversDistance), (''c'', PSI)]"
proof -
  have h1: "priv_prediction_properties ex_ranked = Some ex_three"
    by (simp add: ex_ranked_def)
  have r: "snd (compute (calc_drift_and_plot ex_psi ex_emd ex_plot) ex_ranked ex_context)
             = Inr ex_methods_result"
    by (simp add: compute_def ex_ranked_def ex_check_def ex_three_def ex_context_def
        compute_step_def translate_buffer_def dd_get_def calc_drift_and_plot_def ex_psi_def
        ex_emd_def ex_plot_def Let_def ex_methods_result_def columns_order_def
        py_sorted_reverse_def drift_score_def ex_lookup_def)
  have h2: "compute (calc_drift_and_plot ex_psi ex_emd ex_plot) ex_ranked ex_context =
              (fst (compute (calc_drift_and_plot ex_psi ex_emd ex_plot) ex_ranked ex_context),
               Inr ex_methods_result)"
    using r by (simp add: prod_eq_iff)
  have rec: "recorded_methods (cr_value ex_methods_result) =
     [(''a'', PSI), (''b'', EarthMoversDistance), (''c'', PSI)]"
    by (simp add: recorded_methods_def ex_methods_result_def)
  from method_determined_by_output_type[OF h1 h2]
  have "recorded_methods (cr_value ex_methods_result) = declared_methods ex_three"
    by blast
  then show ?thesis
    using h1 r rec by simp
qed

subsection \<open>Class ids and class names\<close>

lemma update_ignores_context: "update self ctx b k = update self ctx' b k"
  by (simp add: update_def)

lemma update_all_ignores_context: "update_all self ctx calls = update_all self ctx' calls"
proof (induction calls arbitrary: self)
  case Nil
  then show ?case by simp
next
  case (Cons c calls)
  obtain k b where c: "c = (k, b)" by (cases c)
  show ?case
    using Cons.IH update_ignores_context[of self ctx b k ctx']
    by (simp add: c split: sum.splits)
qed

lemma batches_of_subset: "b \<in> set (batches_of k calls) \<Longrightarrow> \<exists>c\<in>set calls. snd c = b"
  by (auto simp: batches_of_def)

lemma extracted_all:
  assumes "\<forall>q\<in>set ps. name q = n \<longrightarrow> list_all P (properties_flatten (prop_method q (predictions b)))"
  shows "list_all P (extracted ps n b)"
  using assms by (auto simp: extracted_def list_all_iff)

lemma accumulated_all:
  assumes "\<forall>q\<in>set ps. name q = n \<longrightarrow>
             (\<forall>c\<in>set calls. list_all P (properties_flatten (prop_method q (predictions (snd c)))))"
  shows "list_all P (concat (map (extracted ps n) (batches_of k calls)))"
proof -
  have "\<forall>b\<in>set (batches_of k calls). list_all P (extracted ps n b)"
  proof
    fix b assume "b \<in> set (batches_of k calls)"
    from batches_of_subset[OF this] obtain c where c: "c \<in> set calls" "snd c = b" by blast
    show "list_all P (extracted ps n b)"
      using assms c by (intro extracted_all) auto
  qed
  then show ?thesis by (auto simp: list_all_iff)
qed

lemma class_id_passes_positive:
  "p \<in> set ps \<Longrightarrow> output_type p = class_id \<Longrightarrow> 1 \<le> class_id_passes ps (name p)"
proof -
  assume "p \<in> set ps" "output_type p = class_id"
  then have "p \<in> set (filter (\<lambda>q. name q = name p \<and> output_type q = class_id) ps)"
    by simp
  then have "filter (\<lambda>q. name q = name p \<and> output_type q = class_id) ps \<noteq> []"
    by (metis empty_iff list.set(1))
  then show ?thesis
    by (simp add: class_id_passes_def Suc_le_eq)
qed

lemma class_id_passes_unique:
  assumes "filter (\<lambda>q. name q = name p) ps = [p]" and "output_type p = class_id"
  shows "class_id_passes ps (name p) = 1"
proof -
  have "filter (\<lambda>q. name q = name p \<and> output_type q = class_id) ps
        = filter (\<lambda>q. output_type q = class_id) (filter (\<lambda>q. name q = name p) ps)"
    by (simp add: conj_commute)
  then show ?thesis using assms by (simp add: class_id_passes_def)
qed

text \<open>What \<^verbatim>\<open>compute\<close> does with the buffers of a name, from initialised buffers.\<close>

lemma compute_translates:
  assumes pp: "priv_prediction_properties s = Some ps"
      and tb: "priv_train_prediction_properties s = Some tb"
      and teb: "priv_test_prediction_properties s = Some teb"
      and p: "p \<in> set ps"
      and run: "compute calc s ctx = (s', Inr res)"
  shows "dd_get (the (priv_train_prediction_properties s')) (name p) =
           map (label_id_to_name (train ctx) ^^ class_id_passes ps (name p)) (dd_get tb (name p)) \<and>
         dd_get (the (priv_test_prediction_properties s')) (name p) =
           map (label_id_to_name (test ctx) ^^ class_id_passes ps (name p)) (dd_get teb (name p)) \<and>
         (\<exists>ps1 q ps2 v m d. ps = ps1 @ q # ps2 \<and> name q = name p \<and> name p \<notin> name ` set ps2 \<and>
            calc (map (label_id_to_name (train ctx) ^^ class_id_passes ps (name p)) (dd_get tb (name p)))
                 (map (label_id_to_name (test ctx) ^^ class_id_passes ps (name p)) (dd_get teb (name p)))
                 (name p) (get_column_type (output_type q))
                 (max_num_categories_for_drift s) (max_num_categories_for_display s)
                 (show_categories_by s) = Inr (v, m, d) \<and>
            map_of (cr_value res) (name p) = Some (v, m))"
proof -
  from p have ne: "ps \<noteq> []" by auto
  from compute_success_cases[OF pp run] ne tb teb
  obtain acc where loop:
    "compute_loop calc s ctx
       \<lparr> acc_train = tb, acc_test = teb, values_dict = [], displays_dict = [] \<rparr> ps = (acc, None)"
    and s': "s' = s\<lparr> priv_train_prediction_properties := Some (acc_train acc),
                     priv_test_prediction_properties := Some (acc_test acc) \<rparr>"
    and v: "cr_value res = values_dict acc"
    by auto
  from compute_loop_buffers[OF loop, of "name p"] s'
  have bufs: "dd_get (the (priv_train_prediction_properties s')) (name p) =
           map (label_id_to_name (train ctx) ^^ class_id_passes ps (name p)) (dd_get tb (name p))"
    "dd_get (the (priv_test_prediction_properties s')) (name p) =
           map (label_id_to_name (test ctx) ^^ class_id_passes ps (name p)) (dd_get teb (name p))"
    by simp_all
  from last_with_name[OF p]
  obtain ps1 q ps2 where sp: "ps = ps1 @ q # ps2" "name q = name p" "name p \<notin> name ` set ps2"
    by blast
  have loop': "compute_loop calc s ctx
       \<lparr> acc_train = tb, acc_test = teb, values_dict = [], displays_dict = [] \<rparr> (ps1 @ q # ps2)
       = (acc, None)"
    using loop sp(1) by simp
  have last: "name q \<notin> name ` set ps2" using sp by simp
  from compute_loop_entry_of_last[OF loop' last]
  obtain v' m d where e:
    "calc (map (label_id_to_name (train ctx) ^^ class_id_passes (ps1 @ q # ps2) (name q))
               (dd_get tb (name q)))
          (map (label_id_to_name (test ctx) ^^ class_id_passes (ps1 @ q # ps2) (name q))
               (dd_get teb (name q)))
          (name q) (get_column_type (output_type q)) (max_num_categories_for_drift s)
          (max_num_categories_for_display s) (show_categories_by s) = Inr (v', m, d)"
    "map_of (values_dict acc) (name q) = Some (v', m)"
    by auto
  have ex: "\<exists>ps1 q ps2 v m d. ps = ps1 @ q # ps2 \<and> name q = name p \<and> name p \<notin> name ` set ps2 \<and>
            calc (map (label_id_to_name (train ctx) ^^ class_id_passes ps (name p)) (dd_get tb (name p)))
                 (map (label_id_to_name (test ctx) ^^ class_id_passes ps (name p)) (dd_get teb (name p)))
                 (name p) (get_column_type (output_type q))
                 (max_num_categories_for_drift s) (max_num_categories_for_display s)
                 (show_categories_by s) = Inr (v, m, d) \<and>
            map_of (cr_value res) (name p) = Some (v, m)"
    using e sp v
    by (intro exI[of _ ps1] exI[of _ q] exI[of _ ps2] exI[of _ v'] exI[of _ m] exI[of _ d]) simp
  show ?thesis using bufs ex by blast
qed

lemma unique_is_last:
  assumes "filter (\<lambda>q. name q = name p) ps = [p]"
      and "ps = ps1 @ q # ps2" and "name q = name p"
  shows "q = p"
proof -
  have "q \<in> set (filter (\<lambda>q. name q = name p) ps)"
    using assms(2,3) by simp
  with assms(1) show ?thesis by simp
qed

text \<open>
  C4. Let \<open>p\<close> be a declared \<^verbatim>\<open>class_id\<close> property whose extractors (those declared under
  its name) yield class ids. After \<^verbatim>\<open>initialize_run\<close> and any sequence of
  \<^verbatim>\<open>update\<close> calls tagged TRAIN or TEST, the run reaches the same state whatever lookup
  the context carries, and both buffers of the name hold class ids only; this holds for
  every sequence of calls, hence after every call of a run. When \<^verbatim>\<open>compute\<close> then
  returns a result, the buffers of the name have been rewritten through
  \<^verbatim>\<open>label_id_to_name\<close> once per \<^verbatim>\<open>class_id\<close> property declared under the name (at
  least once; exactly once when the name is \<open>p\<close>'s own), and the score recorded for the
  name is the one the scorer returned on the rewritten train and test columns.
\<close>

theorem class_ids_translated_only_at_compute:
  assumes init: "initialize_run dc dod self0 ctx = Inr s0"
      and kinds: "list_all (\<lambda>c. fst c \<noteq> OtherKind) calls"
      and pp: "priv_prediction_properties s0 = Some ps"
      and p: "p \<in> set ps"
      and ot: "output_type p = class_id"
      and ids: "\<forall>q\<in>set ps. name q = name p \<longrightarrow>
                  (\<forall>c\<in>set calls. list_all is_class_id
                     (properties_flatten (prop_method q (predictions (snd c)))))"
  shows "\<exists>s tb teb.
           (\<forall>ctx'. update_all s0 ctx' calls = Inr s) \<and>
           priv_prediction_properties s = Some ps \<and>
           priv_train_prediction_properties s = Some tb \<and>
           priv_test_prediction_properties s = Some teb \<and>
           list_all is_class_id (dd_get tb (name p)) \<and>
           list_all is_class_id (dd_get teb (name p)) \<and>
           (\<forall>s' res. compute calc s ctx = (s', Inr res) \<longrightarrow>
              1 \<le> class_id_passes ps (name p) \<and>
              dd_get (the (priv_train_prediction_properties s')) (name p) =
                map (label_id_to_name (train ctx) ^^ class_id_passes ps (name p)) (dd_get tb (name p)) \<and>
              dd_get (the (priv_test_prediction_properties s')) (name p) =
                map (label_id_to_name (test ctx) ^^ class_id_passes ps (name p)) (dd_get teb (name p)) \<and>
              (\<exists>q v m d. q \<in> set ps \<and> name q = name p \<and>
                 calc (map (label_id_to_name (train ctx) ^^ class_id_passes ps (name p))
                           (dd_get tb (name p)))
                      (map (label_id_to_name (test ctx) ^^ class_id_passes ps (name p))
                           (dd_get teb (name p)))
                      (name p) (get_column_type (output_type q))
                      (max_num_categories_for_drift s) (max_num_categories_for_display s)
                      (show_categories_by s) = Inr (v, m, d) \<and>
                 map_of (cr_value res) (name p) = Some (v, m)) \<and>
              (filter (\<lambda>q. name q = name p) ps = [p] \<longrightarrow>
                 (\<exists>v m d.
                    calc (map (label_id_to_name (train ctx)) (dd_get tb (name p)))
                         (map (label_id_to_name (test ctx)) (dd_get teb (name p)))
                         (name p) categorical
                         (max_num_categories_for_drift s) (max_num_categories_for_display s)
                         (show_categories_by s) = Inr (v, m, d) \<and>
                    map_of (cr_value res) (name p) = Some (v, m))))"
proof -
  from initialize_run_initialized[OF init]
  have s0: "initialized s0" "priv_train_prediction_properties s0 = Some Map.empty"
    "priv_test_prediction_properties s0 = Some Map.empty"
    by simp_all
  from update_all_buffers[OF s0(1) kinds, of ctx]
  obtain s where s: "update_all s0 ctx calls = Inr s" "initialized s"
    "priv_prediction_properties s = priv_prediction_properties s0"
    "\<forall>n. dd_get (the (priv_train_prediction_properties s)) n =
          dd_get (the (priv_train_prediction_properties s0)) n @
          concat (map (extracted (the (priv_prediction_properties s0)) n) (batches_of TRAIN calls))"
    "\<forall>n. dd_get (the (priv_test_prediction_properties s)) n =
          dd_get (the (priv_test_prediction_properties s0)) n @
          concat (map (extracted (the (priv_prediction_properties s0)) n) (batches_of TEST calls))"
    by blast
  from s(2) obtain tb teb where bufs: "priv_train_prediction_properties s = Some tb"
    "priv_test_prediction_properties s = Some teb"
    by (auto simp: initialized_def)
  have any: "\<forall>ctx'. update_all s0 ctx' calls = Inr s"
    using s(1) update_all_ignores_context[of s0 _ calls ctx] by simp
  have pps: "priv_prediction_properties s = Some ps"
    using s(3) pp by simp
  have tr: "dd_get tb (name p) = concat (map (extracted ps (name p)) (batches_of TRAIN calls))"
    using s(4) bufs s0 pp by (simp add: dd_get_empty)
  have te: "dd_get teb (name p) = concat (map (extracted ps (name p)) (batches_of TEST calls))"
    using s(5) bufs s0 pp by (simp add: dd_get_empty)
  have num_tr: "list_all is_class_id (dd_get tb (name p))"
    unfolding tr by (rule accumulated_all) (use ids in blast)
  have num_te: "list_all is_class_id (dd_get teb (name p))"
    unfolding te by (rule accumulated_all) (use ids in blast)
  have after: "\<forall>s' res. compute calc s ctx = (s', Inr res) \<longrightarrow>
              1 \<le> class_id_passes ps (name p) \<and>
              dd_get (the (priv_train_prediction_properties s')) (name p) =
                map (label_id_to_name (train ctx) ^^ class_id_passes ps (name p)) (dd_get tb (name p)) \<and>
              dd_get (the (priv_test_prediction_properties s')) (name p) =
                map (label_id_to_name (test ctx) ^^ class_id_passes ps (name p)) (dd_get teb (name p)) \<and>
              (\<exists>q v m d. q \<in> set ps \<and> name q = name p \<and>
                 calc (map (label_id_to_name (train ctx) ^^ class_id_passes ps (name p))
                           (dd_get tb (name p)))
                      (map (label_id_to_name (test ctx) ^^ class_id_passes ps (name p))
                           (dd_get teb (name p)))
                      (name p) (get_column_type (output_type q))
                      (max_num_categories_for_drift s) (max_num_categories_for_display s)
                      (show_categories_by s) = Inr (v, m, d) \<and>
                 map_of (cr_value res) (name p) = Some (v, m)) \<and>
              (filter (\<lambda>q. name q = name p) ps = [p] \<longrightarrow>
                 (\<exists>v m d.
                    calc (map (label_id_to_name (train ctx)) (dd_get tb (name p)))
                         (map (label_id_to_name (test ctx)) (dd_get teb (name p)))
                         (name p) categorical
                         (max_num_categories_for_drift s) (max_num_categories_for_display s)
                         (show_categories_by s) = Inr (v, m, d) \<and>
                    map_of (cr_value res) (name p) = Some (v, m)))"
  proof (intro allI impI)
    fix s' res
    assume run: "compute calc s ctx = (s', Inr res)"
    let ?k = "class_id_passes ps (name p)"
    from compute_translates[OF pps bufs p run]
    obtain ps1 q ps2 v m d where c:
      "dd_get (the (priv_train_prediction_properties s')) (name p) =
         map (label_id_to_name (train ctx) ^^ ?k) (dd_get tb (name p))"
      "dd_get (the (priv_test_prediction_properties s')) (name p) =
         map (label_id_to_name (test ctx) ^^ ?k) (dd_get teb (name p))"
      "ps = ps1 @ q # ps2" "name q = name p"
      "calc (map (label_id_to_name (train ctx) ^^ ?k) (dd_get tb (name p)))
            (map (label_id_to_name (test ctx) ^^ ?k) (dd_get teb (name p)))
            (name p) (get_column_type (output_type q))
            (max_num_categories_for_drift s) (max_num_categories_for_display s)
            (show_categories_by s) = Inr (v, m, d)"
      "map_of (cr_value res) (name p) = Some (v, m)"
      by blast
    have k1: "1 \<le> ?k" by (rule class_id_passes_positive[OF p ot])
    have q: "q \<in> set ps" using c(3) by simp
    have gen: "\<exists>q v m d. q \<in> set ps \<and> name q = name p \<and>
                 calc (map (label_id_to_name (train ctx) ^^ ?k) (dd_get tb (name p)))
                      (map (label_id_to_name (test ctx) ^^ ?k) (dd_get teb (name p)))
                      (name p) (get_column_type (output_type q))
                      (max_num_categories_for_drift s) (max_num_categories_for_display s)
                      (show_categories_by s) = Inr (v, m, d) \<and>
                 map_of (cr_value res) (name p) = Some (v, m)"
      using q c(4,5,6) by blast
    have own: "filter (\<lambda>q. name q = name p) ps = [p] \<longrightarrow>
                 (\<exists>v m d.
                    calc (map (label_id_to_name (train ctx)) (dd_get tb (name p)))
                         (map (label_id_to_name (test ctx)) (dd_get teb (name p)))
                         (name p) categorical
                         (max_num_categories_for_drift s) (max_num_categories_for_display s)
                         (show_categories_by s) = Inr (v, m, d) \<and>
                    map_of (cr_value res) (name p) = Some (v, m))"
    proof
      assume u: "filter (\<lambda>q. name q = name p) ps = [p]"
      have qp: "q = p" by (rule unique_is_last[OF u c(3) c(4)])
      have one: "?k = 1" by (rule class_id_passes_unique[OF u ot])
      show "\<exists>v m d.
                    calc (map (label_id_to_name (train ctx)) (dd_get tb (name p)))
                         (map (label_id_to_name (test ctx)) (dd_get teb (name p)))
                         (name p) categorical
                         (max_num_categories_for_drift s) (max_num_categories_for_display s)
                         (show_categories_by s) = Inr (v, m, d) \<and>
                    map_of (cr_value res) (name p) = Some (v, m)"
        using c(5,6) by (auto simp: one qp ot)
    qed
    show "1 \<le> ?k \<and>
          dd_get (the (priv_train_prediction_properties s')) (name p) =
            map (label_id_to_name (train ctx) ^^ ?k) (dd_get tb (name p)) \<and>
          dd_get (the (priv_test_prediction_properties s')) (name p) =
            map (label_id_to_name (test ctx) ^^ ?k) (dd_get teb (name p)) \<and>
          (\<exists>q v m d. q \<in> set ps \<and> name q = name p \<and>
             calc (map (label_id_to_name (train ctx) ^^ ?k) (dd_get tb (name p)))
                  (map (label_id_to_name (test ctx) ^^ ?k) (dd_get teb (name p)))
                  (name p) (get_column_type (output_type q))
                  (max_num_categories_for_drift s) (max_num_categories_for_display s)
                  (show_categories_by s) = Inr (v, m, d) \<and>
             map_of (cr_value res) (name p) = Some (v, m)) \<and>
          (filter (\<lambda>q. name q = name p) ps = [p] \<longrightarrow>
             (\<exists>v m d.
                calc (map (label_id_to_name (train ctx)) (dd_get tb (name p)))
                     (map (label_id_to_name (test ctx)) (dd_get teb (name p)))
                     (name p) categorical
                     (max_num_categories_for_drift s) (max_num_categories_for_display s)
                     (show_categories_by s) = Inr (v, m, d) \<and>
                map_of (cr_value res) (name p) = Some (v, m)))"
      by (intro conjI k1 c(1) c(2) gen own)
  qed
  show ?thesis
    by (rule exI[of _ s], rule exI[of _ tb], rule exI[of _ teb])
       (intro conjI any pps bufs num_tr num_te after)
qed

lemma ex_accumulated_run:
  "update_all ex_initialized ex_context ex_calls = Inr ex_accumulated"
  by (simp add: ex_calls_def update_def ex_initialized_def ex_accumulated_def ex_check_def
      append_property_def dd_get_def properties_flatten_def ex_classes_def ex_batch1_def)

lemma ex_accumulated_compute:
  "snd (compute ex_calc ex_accumulated ex_context) =
     Inr \<lparr> cr_value = [(''Samples Per Class'', 2, PSI)],
           cr_display = [Headnote [''Samples Per Class''], Artifact ''Samples Per Class''],
           cr_header = ''Train Test Prediction Drift'' \<rparr> \<and>
   dd_get (the (priv_train_prediction_properties (fst (compute ex_calc ex_accumulated ex_context))))
          ''Samples Per Class'' = [Name ''cat'', Name ''dog'']"
  by (simp add: compute_def ex_accumulated_def ex_check_def ex_classes_def ex_context_def
      compute_step_def translate_buffer_def dd_get_def ex_calc_def Let_def columns_order_def
      py_sorted_reverse_def drift_score_def ex_lookup_def)

text \<open>
  One TRAIN and one TEST batch with predicted classes 3 and 5: the buffers hold the ids
  3 and 5 after the updates, and the names after \<^verbatim>\<open>compute\<close>.
\<close>

theorem class_ids_translated_example:
  "initialize_run [ex_classes] [] ex_check ex_context = Inr ex_initialized \<and>
   list_all (\<lambda>c. fst c \<noteq> OtherKind) ex_calls \<and>
   priv_prediction_properties ex_initialized = Some [ex_classes] \<and>
   output_type ex_classes = class_id \<and>
   update_all ex_initialized ex_context ex_calls = Inr ex_accumulated \<and>
   dd_get (the (priv_train_prediction_properties ex_accumulated)) (name ex_classes) = [Num 3, Num 5] \<and>
   list_all is_class_id (dd_get (the (priv_train_prediction_properties ex_accumulated)) (name ex_classes)) \<and>
   list_all is_class_id (dd_get (the (priv_test_prediction_properties ex_accumulated)) (name ex_classes)) \<and>
   dd_get (the (priv_train_prediction_properties (fst (compute ex_calc ex_accumulated ex_context))))
          (name ex_classes) = [Name ''cat'', Name ''dog'']"
proof -
  have h1: "initialize_run [ex_classes] [] ex_check ex_context = Inr ex_initialized"
    by (simp add: initialize_run_def ex_check_def ex_context_def ex_initialized_def)
  have h2: "list_all (\<lambda>c. fst c \<noteq> OtherKind) ex_calls"
    by (simp add: ex_calls_def)
  have h3: "priv_prediction_properties ex_initialized = Some [ex_classes]"
    by (simp add: ex_initialized_def)
  have h4: "ex_classes \<in> set [ex_classes]" by simp
  have h5: "output_type ex_classes = class_id" by (simp add: ex_classes_def)
  have h6: "\<forall>q\<in>set [ex_classes]. name q = name ex_classes \<longrightarrow>
              (\<forall>c\<in>set ex_calls. list_all is_class_id
                 (properties_flatten (prop_method q (predictions (snd c)))))"
    by (simp add: ex_calls_def ex_classes_def ex_batch1_def properties_flatten_def)
  from class_ids_translated_only_at_compute[OF h1 h2 h3 h4 h5 h6, of ex_calc]
  obtain s tb teb where r:
    "\<forall>ctx'. update_all ex_initialized ctx' ex_calls = Inr s"
    "priv_train_prediction_properties s = Some tb"
    "priv_test_prediction_properties s = Some teb"
    "list_all is_class_id (dd_get tb (name ex_classes))"
    "list_all is_class_id (dd_get teb (name ex_classes))"
    by blast
  from r(1) ex_accumulated_run have s: "s = ex_accumulated" by simp
  have ids: "list_all is_class_id (dd_get (the (priv_train_prediction_properties ex_accumulated)) (name ex_classes))"
    "list_all is_class_id (dd_get (the (priv_test_prediction_properties ex_accumulated)) (name ex_classes))"
    using r(2-5) s by simp_all
  have raw: "dd_get (the (priv_train_prediction_properties ex_accumulated)) (name ex_classes) = [Num 3, Num 5]"
    by (simp add: ex_accumulated_def ex_classes_def dd_get_def)
  have nm: "name ex_classes = ''Samples Per Class''" by (simp add: ex_classes_def)
  show ?thesis
    using h1 h2 h3 h5 ex_accumulated_run ids raw ex_accumulated_compute
    by (simp add: nm)
qed

subsection \<open>The buffers at the end of a run\<close>

lemma compute_loop_buffers_any:
  "\<exists>j\<le>class_id_passes ps n.
     dd_get (acc_train (fst (compute_loop calc self ctx acc ps))) n =
       map (label_id_to_name (train ctx) ^^ j) (dd_get (acc_train acc) n) \<and>
     dd_get (acc_test (fst (compute_loop calc self ctx acc ps))) n =
       map (label_id_to_name (test ctx) ^^ j) (dd_get (acc_test acc) n)"
proof (induction ps arbitrary: acc)
  case Nil
  show ?case by (rule exI[of _ 0]) simp
next
  case (Cons p ps)
  let ?f = "label_id_to_name (train ctx)"
  let ?g = "label_id_to_name (test ctx)"
  let ?d = "if name p = n \<and> output_type p = class_id then 1 else 0 :: nat"
  obtain acc1 r where step: "compute_step calc self ctx acc p = (acc1, r)"
    by (cases "compute_step calc self ctx acc p")
  from compute_step_buffers[of calc self ctx acc p] step
  have b: "dd_get (acc_train acc1) n = map (?f ^^ ?d) (dd_get (acc_train acc) n)"
          "dd_get (acc_test acc1) n = map (?g ^^ ?d) (dd_get (acc_test acc) n)"
    by (auto simp: dd_get_translate_buffer)
  have k: "class_id_passes (p # ps) n = ?d + class_id_passes ps n"
    by (simp add: class_id_passes_def)
  show ?case
  proof (cases r)
    case (Some e)
    then have "fst (compute_loop calc self ctx acc (p # ps)) = acc1"
      using step by simp
    then show ?thesis
      using b k by (intro exI[of _ ?d]) simp
  next
    case None
    then have l: "fst (compute_loop calc self ctx acc (p # ps)) = fst (compute_loop calc self ctx acc1 ps)"
      using step by simp
    from Cons.IH[of acc1] obtain j where j: "j \<le> class_id_passes ps n"
      "dd_get (acc_train (fst (compute_loop calc self ctx acc1 ps))) n =
         map (?f ^^ j) (dd_get (acc_train acc1) n)"
      "dd_get (acc_test (fst (compute_loop calc self ctx acc1 ps))) n =
         map (?g ^^ j) (dd_get (acc_test acc1) n)"
      by blast
    have "j + ?d \<le> class_id_passes (p # ps) n" using j(1) k by simp
    moreover have "dd_get (acc_train (fst (compute_loop calc self ctx acc (p # ps)))) n =
         map (?f ^^ (j + ?d)) (dd_get (acc_train acc) n)"
      unfolding l j(2) b(1) by (simp add: funpow_add)
    moreover have "dd_get (acc_test (fst (compute_loop calc self ctx acc (p # ps)))) n =
         map (?g ^^ (j + ?d)) (dd_get (acc_test acc) n)"
      unfolding l j(3) b(2) by (simp add: funpow_add)
    ultimately show ?thesis by (intro exI[of _ "j + ?d"]) simp
  qed
qed

text \<open>What \<^verbatim>\<open>compute\<close> leaves in the buffers, whether it returns a result or raises.\<close>

lemma compute_buffers:
  assumes pp: "priv_prediction_properties s = Some ps"
      and tb: "priv_train_prediction_properties s = Some tb"
      and teb: "priv_test_prediction_properties s = Some teb"
  shows "\<exists>acc r.
           compute_loop calc s ctx
             \<lparr> acc_train = tb, acc_test = teb, values_dict = [], displays_dict = [] \<rparr> ps = (acc, r) \<and>
           priv_train_prediction_properties (fst (compute calc s ctx)) = Some (acc_train acc) \<and>
           priv_test_prediction_properties (fst (compute calc s ctx)) = Some (acc_test acc) \<and>
           (\<forall>res. snd (compute calc s ctx) = Inr res \<longrightarrow> r = None)"
proof -
  obtain acc r where l: "compute_loop calc s ctx
             \<lparr> acc_train = tb, acc_test = teb, values_dict = [], displays_dict = [] \<rparr> ps = (acc, r)"
    by (cases "compute_loop calc s ctx
             \<lparr> acc_train = tb, acc_test = teb, values_dict = [], displays_dict = [] \<rparr> ps")
  show ?thesis
    by (rule exI[of _ acc], rule exI[of _ r])
       (cases r; simp add: compute_def Let_def pp tb teb l)
qed

lemma ex_twice_run:
  "update_all ex_declared_initialized ex_context ex_twice = Inr ex_twice_accumulated"
  by (simp add: ex_twice_def update_def ex_declared_initialized_def ex_twice_accumulated_def
      ex_declared_def ex_check_def append_property_def dd_get_def properties_flatten_def
      ex_classes_def ex_values_def ex_batch1_def fun_eq_iff)

lemma ex_twice_compute:
  "snd (compute ex_calc ex_twice_accumulated ex_context) =
     Inr \<lparr> cr_value = [(''Samples Per Class'', 4, PSI), (''Prediction Value'', 4, PSI)],
           cr_display = [Headnote [''Samples Per Class'', ''Prediction Value''],
                         Artifact ''Samples Per Class'', Artifact ''Prediction Value''],
           cr_header = ''Train Test Prediction Drift'' \<rparr>"
  by (simp add: compute_def ex_twice_accumulated_def ex_declared_def ex_check_def ex_classes_def
      ex_values_def ex_context_def compute_step_def translate_buffer_def dd_get_def ex_calc_def
      Let_def columns_order_def py_sorted_reverse_def drift_score_def ex_lookup_def)

lemma ex_twice_finalized:
  "dd_get (the (priv_train_prediction_properties (fst (compute ex_calc ex_twice_accumulated ex_context))))
          ''Samples Per Class'' = [Name ''cat'', Name ''dog'', Name ''cat'', Name ''dog'']"
  by (simp add: compute_def ex_twice_accumulated_def ex_declared_def ex_check_def ex_classes_def
      ex_values_def ex_context_def compute_step_def translate_buffer_def dd_get_def ex_calc_def
      Let_def ex_lookup_def)

text \<open>
  C1, as the code has it. After \<^verbatim>\<open>initialize_run\<close> and any sequence of
  \<^verbatim>\<open>update\<close> calls tagged TRAIN or TEST, every call succeeds, and the train buffer
  stored under a name is the concatenation, in arrival order over the TRAIN batches only,
  of the flattened values that the properties declared under that name extract from the
  batch (in declaration order); likewise for TEST. For a property whose name no other
  declared property shares, this is the concatenation of the flattened values of that
  property's own method. The finalize step is \<^verbatim>\<open>compute\<close>, which keeps both buffers
  in the check and rewrites them in place: under a name with no \<^verbatim>\<open>class_id\<close>
  property the buffers are what the updates accumulated, whether \<^verbatim>\<open>compute\<close>
  returns a result or raises; when \<^verbatim>\<open>compute\<close> returns a result, the buffers of every
  name are the accumulated values passed through \<^verbatim>\<open>label_id_to_name\<close> once per
  \<^verbatim>\<open>class_id\<close> property declared under the name; when the scorer raises, they have
  been passed through it at most that many times, train and test alike.
\<close>

theorem accumulator_buffers_by_name:
  assumes init: "initialize_run dc dod self0 ctx = Inr s0"
      and kinds: "list_all (\<lambda>c. fst c \<noteq> OtherKind) calls"
  shows "\<exists>s ps tb teb tb' teb'.
           update_all s0 ctx calls = Inr s \<and>
           priv_prediction_properties s0 = Some ps \<and>
           priv_prediction_properties s = Some ps \<and>
           priv_train_prediction_properties s = Some tb \<and>
           priv_test_prediction_properties s = Some teb \<and>
           (\<forall>n. dd_get tb n = concat (map (extracted ps n) (batches_of TRAIN calls))) \<and>
           (\<forall>n. dd_get teb n = concat (map (extracted ps n) (batches_of TEST calls))) \<and>
           (\<forall>p. filter (\<lambda>q. name q = name p) ps = [p] \<longrightarrow>
                dd_get tb (name p) =
                  concat (map (\<lambda>b. properties_flatten (prop_method p (predictions b)))
                              (batches_of TRAIN calls)) \<and>
                dd_get teb (name p) =
                  concat (map (\<lambda>b. properties_flatten (prop_method p (predictions b)))
                              (batches_of TEST calls))) \<and>
           priv_train_prediction_properties (fst (compute calc s ctx)) = Some tb' \<and>
           priv_test_prediction_properties (fst (compute calc s ctx)) = Some teb' \<and>
           (\<forall>n. class_id_passes ps n = 0 \<longrightarrow>
                dd_get tb' n = dd_get tb n \<and> dd_get teb' n = dd_get teb n) \<and>
           (\<forall>n res. snd (compute calc s ctx) = Inr res \<longrightarrow>
                dd_get tb' n =
                  map (label_id_to_name (train ctx) ^^ class_id_passes ps n) (dd_get tb n) \<and>
                dd_get teb' n =
                  map (label_id_to_name (test ctx) ^^ class_id_passes ps n) (dd_get teb n)) \<and>
           (\<forall>n. \<exists>j\<le>class_id_passes ps n.
                dd_get tb' n = map (label_id_to_name (train ctx) ^^ j) (dd_get tb n) \<and>
                dd_get teb' n = map (label_id_to_name (test ctx) ^^ j) (dd_get teb n))"
proof -
  from initialize_run_initialized[OF init]
  have s0: "initialized s0" "priv_train_prediction_properties s0 = Some Map.empty"
    "priv_test_prediction_properties s0 = Some Map.empty"
    by simp_all
  from s0(1) obtain ps where ps: "priv_prediction_properties s0 = Some ps"
    by (auto simp: initialized_def)
  from update_all_buffers[OF s0(1) kinds, of ctx]
  obtain s where s: "update_all s0 ctx calls = Inr s" "initialized s"
    "priv_prediction_properties s = priv_prediction_properties s0"
    "\<forall>n. dd_get (the (priv_train_prediction_properties s)) n =
          dd_get (the (priv_train_prediction_properties s0)) n @
          concat (map (extracted (the (priv_prediction_properties s0)) n) (batches_of TRAIN calls))"
    "\<forall>n. dd_get (the (priv_test_prediction_properties s)) n =
          dd_get (the (priv_test_prediction_properties s0)) n @
          concat (map (extracted (the (priv_prediction_properties s0)) n) (batches_of TEST calls))"
    by blast
  from s(2) obtain tb teb where bufs: "priv_train_prediction_properties s = Some tb"
    "priv_test_prediction_properties s = Some teb"
    by (auto simp: initialized_def)
  have tr: "\<forall>n. dd_get tb n = concat (map (extracted ps n) (batches_of TRAIN calls))"
    using s(4) bufs s0 ps by (simp add: dd_get_empty)
  have te: "\<forall>n. dd_get teb n = concat (map (extracted ps n) (batches_of TEST calls))"
    using s(5) bufs s0 ps by (simp add: dd_get_empty)
  have own: "\<forall>p. filter (\<lambda>q. name q = name p) ps = [p] \<longrightarrow>
                dd_get tb (name p) =
                  concat (map (\<lambda>b. properties_flatten (prop_method p (predictions b)))
                              (batches_of TRAIN calls)) \<and>
                dd_get teb (name p) =
                  concat (map (\<lambda>b. properties_flatten (prop_method p (predictions b)))
                              (batches_of TEST calls))"
  proof (intro allI impI)
    fix p :: "'a property"
    assume u: "filter (\<lambda>q. name q = name p) ps = [p]"
    have "extracted ps (name p) = (\<lambda>b. properties_flatten (prop_method p (predictions b)))"
      by (rule ext) (simp add: extracted_unique[OF u])
    then show "dd_get tb (name p) =
                  concat (map (\<lambda>b. properties_flatten (prop_method p (predictions b)))
                              (batches_of TRAIN calls)) \<and>
                dd_get teb (name p) =
                  concat (map (\<lambda>b. properties_flatten (prop_method p (predictions b)))
                              (batches_of TEST calls))"
      using tr te by simp
  qed
  have same: "priv_prediction_properties s = Some ps"
    using s(3) ps by simp
  let ?f = "label_id_to_name (train ctx)"
  let ?g = "label_id_to_name (test ctx)"
  let ?start = "\<lparr> acc_train = tb, acc_test = teb, values_dict = [], displays_dict = [] \<rparr>
                  :: ('b, 'c) compute_acc"
  from compute_buffers[OF same bufs, of calc ctx]
  obtain acc r where c:
    "compute_loop calc s ctx ?start ps = (acc, r)"
    "priv_train_prediction_properties (fst (compute calc s ctx)) = Some (acc_train acc)"
    "priv_test_prediction_properties (fst (compute calc s ctx)) = Some (acc_test acc)"
    "\<forall>res. snd (compute calc s ctx) = Inr res \<longrightarrow> r = None"
    by blast
  have any: "\<forall>n. \<exists>j\<le>class_id_passes ps n.
                dd_get (acc_train acc) n = map (?f ^^ j) (dd_get tb n) \<and>
                dd_get (acc_test acc) n = map (?g ^^ j) (dd_get teb n)"
  proof
    fix n
    from compute_loop_buffers_any[of ps n calc s ctx ?start] c(1)
    show "\<exists>j\<le>class_id_passes ps n.
                dd_get (acc_train acc) n = map (?f ^^ j) (dd_get tb n) \<and>
                dd_get (acc_test acc) n = map (?g ^^ j) (dd_get teb n)"
      by simp
  qed
  have none: "\<forall>n. class_id_passes ps n = 0 \<longrightarrow>
                dd_get (acc_train acc) n = dd_get tb n \<and> dd_get (acc_test acc) n = dd_get teb n"
  proof (intro allI impI)
    fix n
    assume z: "class_id_passes ps n = 0"
    from any obtain j where "j \<le> class_id_passes ps n"
      "dd_get (acc_train acc) n = map (?f ^^ j) (dd_get tb n)"
      "dd_get (acc_test acc) n = map (?g ^^ j) (dd_get teb n)"
      by blast
    with z show "dd_get (acc_train acc) n = dd_get tb n \<and> dd_get (acc_test acc) n = dd_get teb n"
      by simp
  qed
  have success: "\<forall>n res. snd (compute calc s ctx) = Inr res \<longrightarrow>
                dd_get (acc_train acc) n = map (?f ^^ class_id_passes ps n) (dd_get tb n) \<and>
                dd_get (acc_test acc) n = map (?g ^^ class_id_passes ps n) (dd_get teb n)"
  proof (intro allI impI)
    fix n res
    assume "snd (compute calc s ctx) = Inr res"
    with c(4) have "r = None" by blast
    with c(1) have l: "compute_loop calc s ctx ?start ps = (acc, None)" by simp
    from compute_loop_buffers[OF l, of n]
    show "dd_get (acc_train acc) n = map (?f ^^ class_id_passes ps n) (dd_get tb n) \<and>
          dd_get (acc_test acc) n = map (?g ^^ class_id_passes ps n) (dd_get teb n)"
      by simp
  qed
  show ?thesis
    by (rule exI[of _ s], rule exI[of _ ps], rule exI[of _ tb], rule exI[of _ teb],
        rule exI[of _ "acc_train acc"], rule exI[of _ "acc_test acc"])
       (intro conjI s(1) ps same bufs tr te own c(2) c(3) none success any)
qed

text \<open>
  The run of the spec's example on two declared properties that read the predicted
  classes, one declared \<^verbatim>\<open>class_id\<close> and one declared \<^verbatim>\<open>discrete\<close>:
  \<^verbatim>\<open>initialize_run\<close>, then \<^verbatim>\<open>update\<close> twice with the same TRAIN batch, then
  \<^verbatim>\<open>compute\<close>. After the updates both train buffers hold the values extracted from
  the batch twice and the test buffers are empty. After \<^verbatim>\<open>compute\<close> this is still so
  for the discrete property, and the train buffer of the \<^verbatim>\<open>class_id\<close> property holds
  the class names.
\<close>

theorem accumulator_two_train_updates:
  "initialize_run [] [] ex_declared ex_context = Inr ex_declared_initialized \<and>
   list_all (\<lambda>c. fst c \<noteq> OtherKind) ex_twice \<and>
   update_all ex_declared_initialized ex_context ex_twice = Inr ex_twice_accumulated \<and>
   properties_flatten (prop_method ex_values (predictions ex_batch1)) = [Num 3, Num 5] \<and>
   dd_get (the (priv_train_prediction_properties ex_twice_accumulated)) ''Prediction Value''
     = [Num 3, Num 5, Num 3, Num 5] \<and>
   dd_get (the (priv_test_prediction_properties ex_twice_accumulated)) ''Prediction Value'' = [] \<and>
   dd_get (the (priv_train_prediction_properties ex_twice_accumulated)) ''Samples Per Class''
     = [Num 3, Num 5, Num 3, Num 5] \<and>
   dd_get (the (priv_test_prediction_properties ex_twice_accumulated)) ''Samples Per Class'' = [] \<and>
   dd_get (the (priv_train_prediction_properties (fst (compute ex_calc ex_twice_accumulated ex_context))))
          ''Prediction Value'' = [Num 3, Num 5, Num 3, Num 5] \<and>
   dd_get (the (priv_test_prediction_properties (fst (compute ex_calc ex_twice_accumulated ex_context))))
          ''Prediction Value'' = [] \<and>
   dd_get (the (priv_train_prediction_properties (fst (compute ex_calc ex_twice_accumulated ex_context))))
          ''Samples Per Class'' = [Name ''cat'', Name ''dog'', Name ''cat'', Name ''dog''] \<and>
   dd_get (the (priv_test_prediction_properties (fst (compute ex_calc ex_twice_accumulated ex_context))))
          ''Samples Per Class'' = []"
proof -
  let ?after = "fst (compute ex_calc ex_twice_accumulated ex_context)"
  let ?f = "label_id_to_name (train ex_context)"
  let ?g = "label_id_to_name (test ex_context)"
  have h1: "initialize_run [] [] ex_declared ex_context = Inr ex_declared_initialized"
    by (simp add: initialize_run_def ex_declared_def ex_check_def ex_context_def
        ex_declared_initialized_def)
  have h2: "list_all (\<lambda>c. fst c \<noteq> OtherKind) ex_twice"
    by (simp add: ex_twice_def)
  have pp: "priv_prediction_properties ex_declared_initialized = Some [ex_classes, ex_values]"
    by (simp add: ex_declared_initialized_def)
  have flat: "properties_flatten (prop_method ex_values (predictions ex_batch1)) = [Num 3, Num 5]"
    "properties_flatten (prop_method ex_classes (predictions ex_batch1)) = [Num 3, Num 5]"
    by (simp_all add: properties_flatten_def ex_values_def ex_classes_def ex_batch1_def)
  have nm: "name ex_classes = ''Samples Per Class''" "name ex_values = ''Prediction Value''"
    by (simp_all add: ex_classes_def ex_values_def)
  have ot: "output_type ex_classes = class_id" "output_type ex_values = discrete"
    by (simp_all add: ex_classes_def ex_values_def)
  have k: "class_id_passes [ex_classes, ex_values] ''Prediction Value'' = 0"
    "class_id_passes [ex_classes, ex_values] ''Samples Per Class'' = 1"
    by (simp_all add: class_id_passes_def nm ot)
  have f: "map ?f [Num 3, Num 5, Num 3, Num 5] = [Name ''cat'', Name ''dog'', Name ''cat'', Name ''dog'']"
    by (simp add: ex_context_def ex_lookup_def)
  from accumulator_buffers_by_name[OF h1 h2, of ex_calc]
  obtain s ps tb teb tb' teb' where r:
    "update_all ex_declared_initialized ex_context ex_twice = Inr s"
    "priv_prediction_properties ex_declared_initialized = Some ps"
    "priv_train_prediction_properties s = Some tb"
    "priv_test_prediction_properties s = Some teb"
    "\<forall>n. dd_get tb n = concat (map (extracted ps n) (batches_of TRAIN ex_twice))"
    "\<forall>n. dd_get teb n = concat (map (extracted ps n) (batches_of TEST ex_twice))"
    "priv_train_prediction_properties (fst (compute ex_calc s ex_context)) = Some tb'"
    "priv_test_prediction_properties (fst (compute ex_calc s ex_context)) = Some teb'"
    "\<forall>n. class_id_passes ps n = 0 \<longrightarrow> dd_get tb' n = dd_get tb n \<and> dd_get teb' n = dd_get teb n"
    "\<forall>n res. snd (compute ex_calc s ex_context) = Inr res \<longrightarrow>
        dd_get tb' n = map (?f ^^ class_id_passes ps n) (dd_get tb n) \<and>
        dd_get teb' n = map (?g ^^ class_id_passes ps n) (dd_get teb n)"
    by blast
  from r(1) ex_twice_run have s: "s = ex_twice_accumulated" by simp
  from r(2) pp have ps: "ps = [ex_classes, ex_values]" by simp
  have tb: "dd_get tb ''Prediction Value'' = [Num 3, Num 5, Num 3, Num 5]"
    "dd_get tb ''Samples Per Class'' = [Num 3, Num 5, Num 3, Num 5]"
    using r(5) by (simp_all add: ps batches_of_def extracted_def nm flat ex_twice_def)
  have teb: "dd_get teb ''Prediction Value'' = []" "dd_get teb ''Samples Per Class'' = []"
    using r(6) by (simp_all add: ps batches_of_def ex_twice_def)
  have keep: "dd_get tb' ''Prediction Value'' = [Num 3, Num 5, Num 3, Num 5]"
    "dd_get teb' ''Prediction Value'' = []"
    using r(9) k(1) tb(1) teb(1) by (simp_all add: ps)
  from ex_twice_compute obtain res where "snd (compute ex_calc s ex_context) = Inr res"
    unfolding s by blast
  with r(10) have "dd_get tb' ''Samples Per Class'' =
        map (?f ^^ class_id_passes ps ''Samples Per Class'') (dd_get tb ''Samples Per Class'')"
    "dd_get teb' ''Samples Per Class'' =
        map (?g ^^ class_id_passes ps ''Samples Per Class'') (dd_get teb ''Samples Per Class'')"
    by blast+
  then have names: "dd_get tb' ''Samples Per Class'' = [Name ''cat'', Name ''dog'', Name ''cat'', Name ''dog'']"
    "dd_get teb' ''Samples Per Class'' = []"
    using k(2) tb(2) teb(2) f by (simp_all add: ps)
  have a: "priv_train_prediction_properties ex_twice_accumulated = Some tb"
    "priv_test_prediction_properties ex_twice_accumulated = Some teb"
    "priv_train_prediction_properties ?after = Some tb'"
    "priv_test_prediction_properties ?after = Some teb'"
    using r(3,4,7,8) s by simp_all
  show ?thesis
    unfolding a option.sel
    by (intro conjI h1 h2 ex_twice_run flat(1) tb teb keep names)
qed

text \<open>
  Where the buffers differ from the values a property's own method extracted. On the run of
  the example the train buffer of the \<^verbatim>\<open>class_id\<close> property holds, after
  \<^verbatim>\<open>compute\<close> has returned its result, the class names and not the extracted ids. And
  the buffers are keyed by property name, so two declared properties of one name share a
  buffer: after one TRAIN batch the buffer of the first property holds the values of both,
  not the values of its own method alone.
\<close>

theorem finalized_buffer_differs_from_extracted_values:
  "initialize_run [] [] ex_declared ex_context = Inr ex_declared_initialized \<and>
   update_all ex_declared_initialized ex_context ex_twice = Inr ex_twice_accumulated \<and>
   snd (compute ex_calc ex_twice_accumulated ex_context) =
     Inr \<lparr> cr_value = [(''Samples Per Class'', 4, PSI), (''Prediction Value'', 4, PSI)],
           cr_display = [Headnote [''Samples Per Class'', ''Prediction Value''],
                         Artifact ''Samples Per Class'', Artifact ''Prediction Value''],
           cr_header = ''Train Test Prediction Drift'' \<rparr> \<and>
   dd_get (the (priv_train_prediction_properties (fst (compute ex_calc ex_twice_accumulated ex_context))))
          (name ex_classes) = [Name ''cat'', Name ''dog'', Name ''cat'', Name ''dog''] \<and>
   properties_flatten (prop_method ex_classes (predictions ex_batch1)) @
   properties_flatten (prop_method ex_classes (predictions ex_batch1))
     = [Num 3, Num 5, Num 3, Num 5] \<and>
   dd_get (the (priv_train_prediction_properties (fst (compute ex_calc ex_twice_accumulated ex_context))))
          (name ex_classes) \<noteq>
   properties_flatten (prop_method ex_classes (predictions ex_batch1)) @
   properties_flatten (prop_method ex_classes (predictions ex_batch1)) \<and>
   (case initialize_run [] [] ex_shared_name ex_context of
      Inl e \<Rightarrow> False
    | Inr s0 \<Rightarrow>
       (case update_all s0 ex_context [(TRAIN, ex_batch1)] of
          Inl e \<Rightarrow> False
        | Inr s \<Rightarrow>
            priv_prediction_properties s = Some [ex_first, ex_second] \<and>
            dd_get (the (priv_train_prediction_properties s)) (name ex_first) = [Num 1, Num 2] \<and>
            concat (map (\<lambda>b. properties_flatten (prop_method ex_first (predictions b)))
                        (batches_of TRAIN [(TRAIN, ex_batch1)])) = [Num 1] \<and>
            dd_get (the (priv_train_prediction_properties s)) (name ex_first) \<noteq>
            concat (map (\<lambda>b. properties_flatten (prop_method ex_first (predictions b)))
                        (batches_of TRAIN [(TRAIN, ex_batch1)]))))"
proof -
  have h1: "initialize_run [] [] ex_declared ex_context = Inr ex_declared_initialized"
    by (simp add: initialize_run_def ex_declared_def ex_check_def ex_context_def
        ex_declared_initialized_def)
  have nm: "name ex_classes = ''Samples Per Class''"
    by (simp add: ex_classes_def)
  have flat: "properties_flatten (prop_method ex_classes (predictions ex_batch1)) @
              properties_flatten (prop_method ex_classes (predictions ex_batch1))
                = [Num 3, Num 5, Num 3, Num 5]"
    by (simp add: properties_flatten_def ex_classes_def ex_batch1_def)
  have shared: "(case initialize_run [] [] ex_shared_name ex_context of
      Inl e \<Rightarrow> False
    | Inr s0 \<Rightarrow>
       (case update_all s0 ex_context [(TRAIN, ex_batch1)] of
          Inl e \<Rightarrow> False
        | Inr s \<Rightarrow>
            priv_prediction_properties s = Some [ex_first, ex_second] \<and>
            dd_get (the (priv_train_prediction_properties s)) (name ex_first) = [Num 1, Num 2] \<and>
            concat (map (\<lambda>b. properties_flatten (prop_method ex_first (predictions b)))
                        (batches_of TRAIN [(TRAIN, ex_batch1)])) = [Num 1] \<and>
            dd_get (the (priv_train_prediction_properties s)) (name ex_first) \<noteq>
            concat (map (\<lambda>b. properties_flatten (prop_method ex_first (predictions b)))
                        (batches_of TRAIN [(TRAIN, ex_batch1)]))))"
    by (simp add: initialize_run_def ex_shared_name_def ex_check_def ex_context_def update_def
        append_property_def dd_get_def properties_flatten_def ex_first_def ex_second_def
        batches_of_def)
  show ?thesis
    unfolding nm ex_twice_finalized flat
    by (intro conjI h1 ex_twice_run ex_twice_compute refl shared) simp
qed

subsection \<open>Deprecated \<^verbatim>\<open>max_num_categories\<close>\<close>

lemma init_raises_on_rejected_properties:
  "validate_properties ps = Some e \<Longrightarrow>
     TrainTestPredictionDrift_init validate_properties (Some ps) for_drift for_display show_by
       max_num_categories = Inl e"
  by (simp add: TrainTestPredictionDrift_init_def)

text \<open>
  C10. Let the property list be omitted or accepted by \<^verbatim>\<open>validate_properties\<close>, and
  let \<^verbatim>\<open>max_num_categories_for_drift\<close> and \<^verbatim>\<open>max_num_categories_for_display\<close>
  be non-zero integers (the defaults, 10 and 10, are). Then construction with any non-None
  value for the deprecated \<^verbatim>\<open>max_num_categories\<close> succeeds, emits the deprecation
  warning and nothing else, and builds the configuration that holds the two given values,
  not the deprecated one; construction without the deprecated parameter succeeds, emits
  no warning and builds the same configuration.
\<close>

theorem deprecated_max_num_categories_ignored:
  assumes valid: "prediction_props = None \<or>
                    (\<exists>ps. prediction_props = Some ps \<and> validate_properties ps = None)"
      and drift: "for_drift \<noteq> 0"
      and display: "for_display \<noteq> 0"
  shows "TrainTestPredictionDrift_init validate_properties prediction_props
             (Some for_drift) (Some for_display) show_by (Some deprecated) =
           Inr (\<lparr> user_prediction_properties = prediction_props,
                   max_num_categories_for_drift = Some for_drift,
                   max_num_categories_for_display = Some for_display,
                   show_categories_by = show_by,
                   priv_prediction_properties = None,
                   priv_train_prediction_properties = None,
                   priv_test_prediction_properties = None \<rparr>, [DeprecationWarning]) \<and>
         TrainTestPredictionDrift_init validate_properties prediction_props
             (Some for_drift) (Some for_display) show_by None =
           Inr (\<lparr> user_prediction_properties = prediction_props,
                   max_num_categories_for_drift = Some for_drift,
                   max_num_categories_for_display = Some for_display,
                   show_categories_by = show_by,
                   priv_prediction_properties = None,
                   priv_train_prediction_properties = None,
                   priv_test_prediction_properties = None \<rparr>, [])"
proof -
  have ok: "(case prediction_props of None \<Rightarrow> None | Some ps \<Rightarrow> validate_properties ps) = None"
    using valid by (auto split: option.splits)
  show ?thesis
    using drift display
    by (simp add: TrainTestPredictionDrift_init_def ok py_or_def truthy_def)
qed

text \<open>
  The construction with every parameter at its default and the deprecated parameter set
  to 3: both limits stay 10 and the warning is emitted. Without the deprecated parameter
  the same configuration is built and nothing is emitted.
\<close>

theorem deprecated_max_num_categories_example:
  "TrainTestPredictionDrift_init (\<lambda>ps. None) None (Some 10) (Some 10) ''train_largest'' (Some 3)
     = Inr (ex_check, [DeprecationWarning]) \<and>
   TrainTestPredictionDrift_init (\<lambda>ps. None) None (Some 10) (Some 10) ''train_largest'' None
     = Inr (ex_check, []) \<and>
   max_num_categories_for_drift (ex_check :: int list TrainTestPredictionDrift) = Some 10 \<and>
   max_num_categories_for_display (ex_check :: int list TrainTestPredictionDrift) = Some 10"
proof -
  have h1: "(None :: int list property list option) = None \<or>
              (\<exists>ps. (None :: int list property list option) = Some ps \<and> (\<lambda>ps. None :: error option) ps = None)"
    by simp
  have h2: "(10 :: int) \<noteq> 0" by simp
  from deprecated_max_num_categories_ignored[OF h1 h2 h2, of "''train_largest''" 3]
  show ?thesis
    by (simp add: ex_check_def)
qed

section \<open>Properties of the segment performance check\<close>

subsection \<open>Construction\<close>

lemma init_rejects_negative_segments:
  "n < 0 \<Longrightarrow> \<exists>msg. SegmentPerformance_init f1 f2 sc (IntArg n) = Inl (DeepchecksValueError msg)"
  by (simp add: SegmentPerformance_init_def)

lemma init_rejects_identical_truthy_features:
  "feature_truthy f \<Longrightarrow>
     SegmentPerformance_init (Some f) (Some f) sc segments =
       Inl (DeepchecksValueError ''feature_1 must be different than feature_2'')"
  by (simp add: SegmentPerformance_init_def)

lemma init_accepts_distinct_features:
  "f1 \<noteq> f2 \<or> f1 = None \<Longrightarrow> 0 \<le> n \<Longrightarrow>
     \<exists>self. SegmentPerformance_init f1 f2 sc (IntArg n) = Inr self"
  by (auto simp: SegmentPerformance_init_def split: option.splits)

text \<open>
  C2. The constructor accepts \<^verbatim>\<open>max_segments = 0\<close>: the test is
  \<^verbatim>\<open>max_segments < 0\<close>, although its message asks for a positive integer.
\<close>

theorem zero_segments_accepted:
  "SegmentPerformance_init None None None (IntArg 0) =
     Inr \<lparr> feature_1 = None, feature_2 = None, max_segments = 0, user_scorer = None \<rparr>"
  by (simp add: SegmentPerformance_init_def)

text \<open>
  C6. The constructor accepts two identical features when the feature is false in a
  boolean position, such as the column label 0: the test is
  \<^verbatim>\<open>feature_1 and feature_1 == feature_2\<close>.
\<close>

theorem identical_falsy_features_accepted:
  "SegmentPerformance_init (Some (FInt 0)) (Some (FInt 0)) None (IntArg 10) =
     Inr \<lparr> feature_1 = Some (FInt 0), feature_2 = Some (FInt 0), max_segments = 10,
           user_scorer = None \<rparr>"
  by (simp add: SegmentPerformance_init_def)

subsection \<open>What a run leaves in the check\<close>

lemma select_features_frame:
  "max_segments (fst (select_features self fs fi)) = max_segments self \<and>
   user_scorer (fst (select_features self fs fi)) = user_scorer self"
  by (simp add: select_features_def split: option.split sum.split prod.split)

lemma run_logic_check_after:
  "fst (run_logic pc self ctx t) = self \<or>
   fst (run_logic pc self ctx t) =
     fst (select_features self (features (if t = ''train'' then tc_train ctx else tc_test ctx))
            (tc_features_importance ctx))"
  by (simp add: run_logic_def Let_def split: option.split sum.split prod.split)

lemma run_logic_frame:
  "max_segments (fst (run_logic pc self ctx t)) = max_segments self \<and>
   user_scorer (fst (run_logic pc self ctx t)) = user_scorer self"
  using run_logic_check_after[of pc self ctx t]
    select_features_frame[of self "features (if t = ''train'' then tc_train ctx else tc_test ctx)"
      "tc_features_importance ctx"]
  by (elim disjE) simp_all

lemma select_features_given:
  "feature_1 self \<noteq> None \<Longrightarrow> feature_2 self \<noteq> None \<Longrightarrow> fst (select_features self fs fi) = self"
  by (auto simp: select_features_def)

lemma run_logic_given_features_unchanged:
  "feature_1 self \<noteq> None \<Longrightarrow> feature_2 self \<noteq> None \<Longrightarrow> fst (run_logic pc self ctx t) = self"
  using run_logic_check_after[of pc self ctx t] select_features_given[of self]
  by auto

text \<open>
  C8. A run stores the features it selected in the check. A check constructed with both
  features omitted and run on a dataset with features a, b holds a and b afterwards; run
  again on a dataset with features c, d, a, b it segments by a and b, where a freshly
  constructed check segments by c and d.
\<close>

theorem run_logic_keeps_selected_features:
  "fst (run_logic ex_partition ex_segment_check (ex_tabular ex_dataset_a) ''train'') =
     ex_segment_check\<lparr> feature_1 := Some (FStr ''a''), feature_2 := Some (FStr ''b'') \<rparr> \<and>
   map_sum id (\<lambda>v. (value_feature_1 v, value_feature_2 v))
     (snd (run_logic ex_partition
             (fst (run_logic ex_partition ex_segment_check (ex_tabular ex_dataset_a) ''train''))
             (ex_tabular ex_dataset_b) ''train'')) =
     Inr (Some (FStr ''a''), Some (FStr ''b'')) \<and>
   map_sum id (\<lambda>v. (value_feature_1 v, value_feature_2 v))
     (snd (run_logic ex_partition ex_segment_check (ex_tabular ex_dataset_b) ''train'')) =
     Inr (Some (FStr ''c''), Some (FStr ''d''))"
  by (simp add: run_logic_def select_features_def ex_partition_def ex_segment_check_def
      ex_tabular_def ex_dataset_a_def ex_dataset_b_def Let_def)

section \<open>Properties of the model error analysis check\<close>

lemma mea_initialize_run_fresh:
  "mea_initialize_run self None = Inr self' \<Longrightarrow>
     priv_train_properties self' = Some [] \<and> priv_test_properties self' = Some [] \<and>
     priv_train_scores self' = Some [] \<and> priv_test_scores self' = Some []"
  by (auto simp: mea_initialize_run_def)

lemma mea_compute_propagates_other_errors:
  assumes "property_frames self = Inr (train_df, test_df)"
      and "mec train_df (priv_train_scores self) test_df (priv_test_scores self)
             (map fst train_df) [] (min_error_model_score self) (random_state self) = Inl e"
      and "\<forall>msg. e \<noteq> DeepchecksProcessError msg"
  shows "mea_compute mec emdd self = Inl e"
  using assms by (cases e) (simp_all add: mea_compute_def)

text \<open>
  C3. When the two property frames are built and \<^verbatim>\<open>model_error_contribution\<close> raises
  DeepchecksProcessError on them, \<^verbatim>\<open>compute\<close> returns normally: its result is a
  \<^verbatim>\<open>CheckFailure\<close> holding the check and that exception.
\<close>

theorem process_error_becomes_check_failure:
  assumes frames: "property_frames self = Inr (train_df, test_df)"
      and raised: "mec train_df (priv_train_scores self) test_df (priv_test_scores self)
                     (map fst train_df) [] (min_error_model_score self) (random_state self)
                   = Inl (DeepchecksProcessError msg)"
  shows "mea_compute mec emdd self = Inr (CheckFailure self (DeepchecksProcessError msg))"
proof -
  have "mea_compute mec emdd self =
          (case mec train_df (priv_train_scores self) test_df (priv_test_scores self)
                  (map fst train_df) [] (min_error_model_score self) (random_state self) of
             Inl (DeepchecksProcessError msg) \<Rightarrow>
               Inr (CheckFailure self (DeepchecksProcessError msg))
           | Inl e \<Rightarrow> Inl e
           | Inr (error_fi, error_model_predicted) \<Rightarrow>
              (case emdd error_fi error_model_predicted test_df []
                      (max_properties_to_show self) (min_property_contribution self)
                      (n_display_samples self) (min_segment_size self) (random_state self) of
                 Inl e \<Rightarrow> Inl e
               | Inr (display, val) \<Rightarrow>
                   Inr (CheckResultOf val
                          (if display \<noteq> [] then Some (Headnote [] # map Artifact display)
                           else None))))"
    using frames by (simp add: mea_compute_def)
  also have "\<dots> = Inr (CheckFailure self (DeepchecksProcessError msg))"
    using raised by simp
  finally show ?thesis .
qed

text \<open>
  With no property columns the regression step of the example raises, and the caller gets
  the failure record.
\<close>

theorem process_error_becomes_check_failure_example:
  "property_frames ex_error_analysis = Inr ([], []) \<and>
   ex_error_contribution [] (priv_train_scores ex_error_analysis) []
       (priv_test_scores ex_error_analysis) (map fst []) []
       (min_error_model_score ex_error_analysis) (random_state ex_error_analysis)
     = Inl (DeepchecksProcessError ''no usable feature columns'') \<and>
   mea_compute ex_error_contribution ex_display_dataframe ex_error_analysis =
     Inr (CheckFailure ex_error_analysis (DeepchecksProcessError ''no usable feature columns''))"
proof -
  have h1: "property_frames ex_error_analysis = Inr ([], [])"
    by (simp add: property_frames_def pd_DataFrame_def dropna_all_columns_def
        ex_error_analysis_def)
  have h2: "ex_error_contribution [] (priv_train_scores ex_error_analysis) []
       (priv_test_scores ex_error_analysis) (map fst []) []
       (min_error_model_score ex_error_analysis) (random_state ex_error_analysis)
     = Inl (DeepchecksProcessError ''no usable feature columns'')"
    by (simp add: ex_error_contribution_def)
  from process_error_becomes_check_failure[where mec = ex_error_contribution
      and emdd = ex_display_dataframe, OF h1 h2]
  show ?thesis using h1 h2 by simp
qed

section \<open>Properties of the mixed data types check\<close>

lemma is_float_analysable:
  "analysable x \<Longrightarrow> is_float parses x = Inr (floatable parses x)"
  by (cases x) (auto simp: is_float_def floatable_def)

lemma is_float_raises:
  assumes "\<not> analysable x"
  shows "\<exists>e. is_float parses x = Inl e \<and> e \<noteq> ValueError"
proof (cases x)
  case (StrCell s)
  with assms show ?thesis by simp
next
  case (IntCell n)
  with assms have "is_float parses x = Inl OverflowError"
    by (simp add: is_float_def)
  then show ?thesis by simp
next
  case FloatCell
  with assms show ?thesis by simp
next
  case (OtherCell outcome)
  with assms obtain e where e: "outcome = Some e" "e \<noteq> ValueError"
    by (cases outcome) simp_all
  with OtherCell have "is_float parses x = Inl e"
    by (simp add: is_float_def)
  with e(2) show ?thesis by simp
qed

lemma apply_is_float_flags:
  "list_all analysable col \<Longrightarrow> apply_is_float parses col = Inr (map (floatable parses) col)"
proof (induction col)
  case Nil
  then show ?case by simp
next
  case (Cons x col)
  then show ?case by (simp add: is_float_analysable)
qed

text \<open>An entry on which \<^verbatim>\<open>float\<close> raises another exception ends the analysis.\<close>

lemma apply_is_float_raises:
  "\<not> list_all analysable col \<Longrightarrow> \<exists>e. apply_is_float parses col = Inl e \<and> e \<noteq> ValueError"
proof (induction col)
  case Nil
  then show ?case by simp
next
  case (Cons x col)
  show ?case
  proof (cases "analysable x")
    case True
    with Cons.prems have "\<not> list_all analysable col" by simp
    from Cons.IH[OF this] obtain e where "apply_is_float parses col = Inl e" "e \<noteq> ValueError"
      by blast
    then show ?thesis using True by (simp add: is_float_analysable)
  next
    case False
    from is_float_raises[OF this, of parses] obtain e where "is_float parses x = Inl e" "e \<noteq> ValueError"
      by blast
    then show ?thesis by simp
  qed
qed

lemma check_mixed_percentage_raises:
  "\<not> list_all analysable col \<Longrightarrow> \<exists>e. check_mixed_percentage parses col = Inl e \<and> e \<noteq> ValueError"
proof -
  assume "\<not> list_all analysable col"
  from apply_is_float_raises[OF this, of parses]
  obtain e where "apply_is_float parses col = Inl e" "e \<noteq> ValueError" by blast
  then show ?thesis by (simp add: check_mixed_percentage_def)
qed

lemma column_mix_raises:
  assumes "is_string_column (dropna column)" and "\<not> list_all analysable (dropna column)"
  shows "\<exists>e. column_mix is_string_column parses column = Inl e \<and> e \<noteq> ValueError"
  using check_mixed_percentage_raises[OF assms(2), of parses] assms(1)
  by (simp add: column_mix_def get_data_mix_def)

lemma count_flags: "length (filter (\<lambda>b. b) (map P xs)) = length (filter P xs)"
  by (induction xs) simp_all

lemma count_floatable_le: "count_floatable parses col \<le> length col"
  by (simp add: count_floatable_def)

lemma check_mixed_percentage_result:
  assumes "list_all analysable col"
  shows "check_mixed_percentage parses col =
           Inr (if count_floatable parses col = length col \<or> count_floatable parses col = 0 then []
                else [(''strings'', (of_nat (length col) - of_nat (count_floatable parses col))
                                     / of_nat (length col)),
                      (''numbers'', of_nat (count_floatable parses col) / of_nat (length col))])"
proof -
  have le: "count_floatable parses col \<le> length col" by (rule count_floatable_le)
  then have "\<bar>int (count_floatable parses col) - int (length col)\<bar>
               = int (length col) - int (count_floatable parses col)"
    by simp
  then have abs: "(of_int \<bar>int (count_floatable parses col) - int (length col)\<bar> :: rat)
               = of_nat (length col) - of_nat (count_floatable parses col)"
    by simp
  have nums: "length (filter (\<lambda>b. b) (map (floatable parses) col)) = count_floatable parses col"
    unfolding count_floatable_def by (rule count_flags)
  show ?thesis
    unfolding check_mixed_percentage_def Let_def apply_is_float_flags[OF assms] sum.case nums abs
    by simp
qed

lemma ratios_between:
  fixes n t :: nat
  assumes "0 < n" and "n < t"
  shows "0 < (of_nat n :: rat) / of_nat t \<and> (of_nat n :: rat) / of_nat t < 1 \<and>
         0 < ((of_nat t :: rat) - of_nat n) / of_nat t \<and> ((of_nat t :: rat) - of_nat n) / of_nat t < 1 \<and>
         ((of_nat t :: rat) - of_nat n) / of_nat t + of_nat n / of_nat t = 1"
proof -
  have t: "(0 :: rat) < of_nat t" using assms by simp
  have n: "(0 :: rat) < of_nat n" using assms by simp
  have lt: "(of_nat n :: rat) < of_nat t" using assms by simp
  show ?thesis
    using t n lt by (simp add: field_simps)
qed

lemma rejected_entry:
  assumes "analysable x" and "\<not> floatable parses x"
  shows "(\<exists>s. x = StrCell s \<and> \<not> parses s) \<or> x = OtherCell (Some ValueError)"
proof (cases x)
  case (StrCell s)
  with assms(2) show ?thesis by (simp add: floatable_def split: if_splits)
next
  case (IntCell n)
  with assms show ?thesis by (simp add: floatable_def)
next
  case FloatCell
  with assms(2) show ?thesis by (simp add: floatable_def)
next
  case (OtherCell outcome)
  with assms show ?thesis by (auto simp: floatable_def)
qed

lemma mixed_entries:
  assumes "0 < count_floatable parses col" and "count_floatable parses col < length col"
      and "list_all analysable col"
  shows "(\<exists>x\<in>set col. floatable parses x) \<and>
         (\<exists>x\<in>set col. (\<exists>s. x = StrCell s \<and> \<not> parses s) \<or> x = OtherCell (Some ValueError))"
proof -
  from assms(1) have "filter (floatable parses) col \<noteq> []"
    by (simp add: count_floatable_def)
  then have a: "\<exists>x\<in>set col. floatable parses x"
    by (simp add: filter_empty_conv)
  from assms(2) have "length (filter (floatable parses) col) < length col"
    by (simp add: count_floatable_def)
  then have "\<exists>x\<in>set col. \<not> floatable parses x"
    by (metis filter_True less_irrefl)
  then obtain x where x: "x \<in> set col" "\<not> floatable parses x" by blast
  from assms(3) x(1) have "analysable x" by (simp add: list_all_iff)
  from rejected_entry[OF this x(2)] x(1) a show ?thesis by blast
qed

text \<open>
  C9, as the code has it. Take a column that is not a string column, or whose
  non-missing entries are all entries on which \<^verbatim>\<open>float\<close> raises nothing but
  ValueError. The analysis of the column returns either the empty result or a result with
  exactly the keys 'strings' and 'numbers', in which the ratio of numbers is the count of
  entries that \<^verbatim>\<open>float\<close> converts over the count of non-missing entries and the ratio
  of strings is the rest; both ratios lie strictly between 0 and 1 and they sum to 1. A
  non-empty result occurs only for a string column that holds both an entry that
  \<^verbatim>\<open>float\<close> converts and an entry that it rejects with ValueError (a string that does
  not parse, or an object whose conversion raises ValueError).
\<close>

theorem mixed_ratios_of_string_and_number_columns:
  assumes entries: "is_string_column (dropna column) \<longrightarrow> list_all analysable (dropna column)"
  shows "\<exists>r. column_mix is_string_column parses column = Inr r \<and>
           (r = [] \<or>
            (\<exists>strs nums.
               r = [(''strings'', strs), (''numbers'', nums)] \<and>
               nums = of_nat (count_floatable parses (dropna column))
                        / of_nat (length (dropna column)) \<and>
               strs = (of_nat (length (dropna column))
                         - of_nat (count_floatable parses (dropna column)))
                        / of_nat (length (dropna column)) \<and>
               0 < strs \<and> strs < 1 \<and> 0 < nums \<and> nums < 1 \<and> strs + nums = 1 \<and>
               is_string_column (dropna column) \<and>
               (\<exists>x\<in>set (dropna column). floatable parses x) \<and>
               (\<exists>x\<in>set (dropna column).
                  (\<exists>s. x = StrCell s \<and> \<not> parses s) \<or> x = OtherCell (Some ValueError))))"
proof -
  let ?col = "dropna column"
  let ?n = "count_floatable parses ?col"
  let ?t = "length ?col"
  show ?thesis
  proof (cases "is_string_column ?col")
    case False
    then have "column_mix is_string_column parses column = Inr []"
      by (simp add: column_mix_def get_data_mix_def)
    then show ?thesis by simp
  next
    case isc: True
    with entries have ok: "list_all analysable ?col" by simp
    show ?thesis
    proof (cases "?n \<noteq> ?t \<and> ?n \<noteq> 0")
      case False
      then have "column_mix is_string_column parses column = Inr []"
        using check_mixed_percentage_result[OF ok, of parses] isc
        by (auto simp: column_mix_def get_data_mix_def)
      then show ?thesis by simp
    next
      case True
      then have pos: "0 < ?n" and ne: "?n \<noteq> ?t"
        by simp_all
      from ne count_floatable_le[of parses ?col] have lt: "?n < ?t" by simp
      have res: "column_mix is_string_column parses column =
                   Inr [(''strings'', (of_nat ?t - of_nat ?n) / of_nat ?t),
                        (''numbers'', of_nat ?n / of_nat ?t)]"
        using check_mixed_percentage_result[OF ok, of parses] True isc
        by (simp add: column_mix_def get_data_mix_def)
      from ratios_between[OF pos lt]
      have r: "0 < ((of_nat ?t :: rat) - of_nat ?n) / of_nat ?t"
        "((of_nat ?t :: rat) - of_nat ?n) / of_nat ?t < 1"
        "0 < (of_nat ?n :: rat) / of_nat ?t" "(of_nat ?n :: rat) / of_nat ?t < 1"
        "((of_nat ?t :: rat) - of_nat ?n) / of_nat ?t + of_nat ?n / of_nat ?t = 1"
        by simp_all
      from mixed_entries[OF pos lt ok]
      have both: "\<exists>x\<in>set ?col. floatable parses x"
        "\<exists>x\<in>set ?col. (\<exists>s. x = StrCell s \<and> \<not> parses s) \<or> x = OtherCell (Some ValueError)"
        by simp_all
      have mix: "\<exists>strs nums.
               [(''strings'', ((of_nat ?t :: rat) - of_nat ?n) / of_nat ?t),
                (''numbers'', (of_nat ?n :: rat) / of_nat ?t)]
                 = [(''strings'', strs), (''numbers'', nums)] \<and>
               nums = of_nat ?n / of_nat ?t \<and>
               strs = (of_nat ?t - of_nat ?n) / of_nat ?t \<and>
               0 < strs \<and> strs < 1 \<and> 0 < nums \<and> nums < 1 \<and> strs + nums = 1 \<and>
               is_string_column ?col \<and>
               (\<exists>x\<in>set ?col. floatable parses x) \<and>
               (\<exists>x\<in>set ?col.
                  (\<exists>s. x = StrCell s \<and> \<not> parses s) \<or> x = OtherCell (Some ValueError))"
        by (rule exI[of _ "(of_nat ?t - of_nat ?n) / of_nat ?t"], rule exI[of _ "of_nat ?n / of_nat ?t"])
           (intro conjI refl r isc both)
      show ?thesis
        by (rule exI[of _ "[(''strings'', (of_nat ?t - of_nat ?n) / of_nat ?t),
                            (''numbers'', of_nat ?n / of_nat ?t)]"])
           (intro conjI res disjI2 mix)
    qed
  qed
qed

text \<open>
  A column with a missing entry, two strings of digits, one other string, one integer and
  one float: a fifth of its five entries are strings.
\<close>

theorem mixed_ratios_example:
  "ex_is_string_column (dropna ex_column) \<and>
   list_all analysable (dropna ex_column) \<and>
   column_mix ex_is_string_column ex_float_parses ex_column =
     Inr [(''strings'', 1/5), (''numbers'', 4/5)] \<and>
   count_floatable ex_float_parses (dropna ex_column) = 4 \<and>
   length (dropna ex_column) = 5"
proof -
  have ok: "list_all analysable (dropna ex_column)"
    by (simp add: dropna_def ex_column_def float_overflow_def)
  then have h: "ex_is_string_column (dropna ex_column) \<longrightarrow> list_all analysable (dropna ex_column)"
    by simp
  have n: "count_floatable ex_float_parses (dropna ex_column) = 4"
    by (simp add: count_floatable_def floatable_def dropna_def ex_column_def ex_float_parses_def
        float_overflow_def)
  have t: "length (dropna ex_column) = 5"
    by (simp add: dropna_def ex_column_def)
  have isc: "ex_is_string_column (dropna ex_column)"
    by (simp add: ex_is_string_column_def dropna_def ex_column_def ex_float_parses_def)
  have direct: "column_mix ex_is_string_column ex_float_parses ex_column \<noteq> Inr []"
    using isc
    by (simp add: column_mix_def get_data_mix_def check_mixed_percentage_def Let_def
        is_float_def dropna_def ex_column_def ex_float_parses_def float_overflow_def)
  from mixed_ratios_of_string_and_number_columns[where is_string_column = ex_is_string_column
      and column = ex_column and parses = ex_float_parses, OF h] direct
  have "column_mix ex_is_string_column ex_float_parses ex_column =
          Inr [(''strings'', (of_nat 5 - of_nat 4) / of_nat 5), (''numbers'', of_nat 4 / of_nat 5)]"
    unfolding n t by auto
  then show ?thesis
    using ok isc n t by simp
qed

text \<open>
  Two string columns on which the analysis raises instead of returning a result,
  because \<^verbatim>\<open>is_float\<close> catches ValueError only: the column of the string 'a' and the
  integer \<open>10 ^ 400\<close>, on which \<^verbatim>\<open>float\<close> raises OverflowError, and the column of
  the string 'a' and an object that \<^verbatim>\<open>float\<close> does not accept (a complex number),
  on which it raises TypeError. The largest integer that \<^verbatim>\<open>float\<close> converts is
  \<open>2 ^ 1024 - 2 ^ 970 - 1\<close>.
\<close>

theorem mixed_analysis_raises_on_unconvertible_entries:
  "ex_is_string_column (dropna [Some (StrCell ''a''), Some (IntCell (10 ^ 400))]) \<and>
   column_mix ex_is_string_column ex_float_parses [Some (StrCell ''a''), Some (IntCell (10 ^ 400))]
     = Inl OverflowError \<and>
   ex_is_string_column (dropna [Some (StrCell ''a''), Some (OtherCell (Some TypeError))]) \<and>
   column_mix ex_is_string_column ex_float_parses
       [Some (StrCell ''a''), Some (OtherCell (Some TypeError))]
     = Inl TypeError \<and>
   py_float ex_float_parses (IntCell (2 ^ 1024 - 2 ^ 970 - 1)) = None \<and>
   py_float ex_float_parses (IntCell (2 ^ 1024 - 2 ^ 970)) = Some OverflowError"
  by (simp add: check_mixed_percentage_def column_mix_def get_data_mix_def dropna_def
      is_float_def ex_is_string_column_def ex_float_parses_def float_overflow_def)

end
